theory Spec2Isabelle
  imports Complex_Main "HOL-Library.Log_Nat"
begin

section \<open>Python values used by the bot\<close>

subsection \<open>Strings\<close>

text \<open>
  A Python \<^verbatim>\<open>str\<close> is a sequence of Unicode code points. The texts that reach the bot
  from outside (messages, names, error messages of Telegram) are lists of code points;
  the string literals of the source are written as Isabelle strings and turned into
  code points by \<open>py\<close>.
\<close>

type_synonym pystr = "nat list"

definition py :: "string \<Rightarrow> pystr" where
  "py s = map of_char s"

text \<open>
  The class \<^verbatim>\<open>\d\<close> of a \<^verbatim>\<open>str\<close> pattern matches every Unicode decimal digit (general
  category Nd, the characters with \<^verbatim>\<open>str.isdecimal()\<close>), and \<^verbatim>\<open>\D\<close> matches every other
  character. The digits come in the following runs of code points (Unicode 14.0, the
  table of Python 3.11); the first run is \<^verbatim>\<open>0\<close> to \<^verbatim>\<open>9\<close>, the second one the
  Arabic-Indic digits.
\<close>

definition decimal_digit_runs :: "(nat \<times> nat) list" where
  "decimal_digit_runs =
     [(48, 57), (1632, 1641), (1776, 1785), (1984, 1993), (2406, 2415), (2534, 2543),
      (2662, 2671), (2790, 2799), (2918, 2927), (3046, 3055), (3174, 3183), (3302, 3311),
      (3430, 3439), (3558, 3567), (3664, 3673), (3792, 3801), (3872, 3881), (4160, 4169),
      (4240, 4249), (6112, 6121), (6160, 6169), (6470, 6479), (6608, 6617), (6784, 6793),
      (6800, 6809), (6992, 7001), (7088, 7097), (7232, 7241), (7248, 7257), (42528, 42537),
      (43216, 43225), (43264, 43273), (43472, 43481), (43504, 43513), (43600, 43609),
      (44016, 44025), (65296, 65305), (66720, 66729), (68912, 68921), (69734, 69743),
      (69872, 69881), (69942, 69951), (70096, 70105), (70384, 70393), (70736, 70745),
      (70864, 70873), (71248, 71257), (71360, 71369), (71472, 71481), (71904, 71913),
      (72016, 72025), (72784, 72793), (73040, 73049), (73120, 73129), (92768, 92777),
      (92864, 92873), (93008, 93017), (120782, 120831), (123200, 123209), (123632, 123641),
      (125264, 125273), (130032, 130041)]"

definition isdecimal :: "nat \<Rightarrow> bool" where
  "isdecimal c = list_ex (\<lambda>(lo, hi). lo \<le> c \<and> c \<le> hi) decimal_digit_runs"

text \<open>The white space that \<^verbatim>\<open>str.strip()\<close> removes: the characters with \<^verbatim>\<open>str.isspace()\<close>.\<close>

definition isspace :: "nat \<Rightarrow> bool" where
  "isspace c =
     (c \<in> set [9, 10, 11, 12, 13, 28, 29, 30, 31, 32, 133, 160, 5760, 8192, 8193, 8194, 8195,
               8196, 8197, 8198, 8199, 8200, 8201, 8202, 8232, 8233, 8239, 8287, 12288])"

definition strip :: "pystr \<Rightarrow> pystr" where
  "strip s = rev (dropWhile isspace (rev (dropWhile isspace s)))"

text \<open>\<^verbatim>\<open>re.sub(r'\D', '', s)\<close>: every character that is not a decimal digit is deleted.\<close>

definition sub_nondigits :: "pystr \<Rightarrow> pystr" where
  "sub_nondigits s = filter isdecimal s"

text \<open>\<^verbatim>\<open>s.startswith(p)\<close>\<close>

definition startswith :: "pystr \<Rightarrow> pystr \<Rightarrow> bool" where
  "startswith s p = (take (length p) s = p)"

text \<open>\<^verbatim>\<open>needle in hay\<close> on strings.\<close>

fun contains :: "pystr \<Rightarrow> pystr \<Rightarrow> bool" where
  "contains needle [] = (needle = [])"
| "contains needle (c # cs) = (startswith (c # cs) needle \<or> contains needle cs)"

subsection \<open>The fragment of regular expressions the bot uses\<close>

text \<open>
  A backtracking matcher: \<open>rx_rests r s\<close> lists, in the order a backtracking engine tries
  them, the suffixes of \<open>s\<close> that remain after \<open>r\<close> has matched a prefix of \<open>s\<close>.
  \<open>Lit c\<close> is the literal character with code point \<open>c\<close>, \<open>Dig\<close> the class \<^verbatim>\<open>\d\<close>.
\<close>

datatype rx = Lit nat | Dig | Alt rx rx | Opt rx | Cat rx rx | Rep nat rx

primrec iterate_rests :: "(pystr \<Rightarrow> pystr list) \<Rightarrow> nat \<Rightarrow> pystr \<Rightarrow> pystr list" where
  "iterate_rests f 0 s = [s]"
| "iterate_rests f (Suc n) s = concat (map (iterate_rests f n) (f s))"

fun rx_rests :: "rx \<Rightarrow> pystr \<Rightarrow> pystr list" where
  "rx_rests (Lit c) s = (case s of [] \<Rightarrow> [] | x # t \<Rightarrow> if x = c then [t] else [])"
| "rx_rests Dig s = (case s of [] \<Rightarrow> [] | x # t \<Rightarrow> if isdecimal x then [t] else [])"
| "rx_rests (Alt a b) s = rx_rests a s @ rx_rests b s"
| "rx_rests (Opt a) s = rx_rests a s @ [s]"
| "rx_rests (Cat a b) s = concat (map (rx_rests b) (rx_rests a s))"
| "rx_rests (Rep n a) s = iterate_rests (rx_rests a) n s"

text \<open>
  \<^verbatim>\<open>re.match('^' + r + '$', s)\<close>: the pattern is anchored at the start, and \<^verbatim>\<open>$\<close>
  holds at the end of the string or just before a final newline.
\<close>

definition at_dollar :: "pystr \<Rightarrow> bool" where
  "at_dollar rest = (rest = [] \<or> rest = [10])"

definition re_match_anchored :: "rx \<Rightarrow> pystr \<Rightarrow> bool" where
  "re_match_anchored r s = list_ex at_dollar (rx_rests r s)"

text \<open>The pattern \<^verbatim>\<open>^(7|8)?\d{10}$\<close> of \<^verbatim>\<open>process_phone\<close>.\<close>

definition phone_rx :: rx where
  "phone_rx = Cat (Opt (Alt (Lit (of_char CHR ''7'')) (Lit (of_char CHR ''8'')))) (Rep 10 Dig)"

subsection \<open>Decimal numbers\<close>

text \<open>
  A \<^verbatim>\<open>Decimal\<close> is the rational number it denotes. Every \<^verbatim>\<open>Decimal\<close> of the bot is read
  from a column with two decimal places or computed from such values by \<^verbatim>\<open>+\<close> and \<^verbatim>\<open>*\<close>
  with integers, so it has at most two decimal places. The result of an arithmetic
  operation is rounded to the 28 significant digits of the default context, to the
  nearest value and in a tie to the even digit: a value below \<open>10 ^ 26\<close> with two decimal
  places has at most 28 digits and is kept, a larger one is rounded to a multiple of \<open>unit\<close>.
\<close>

definition two_places :: "rat \<Rightarrow> bool" where
  "two_places x = (x * 100 = of_int \<lfloor>x * 100\<rfloor>)"

definition round_half_even :: "rat \<Rightarrow> int" where
  "round_half_even x =
     (let f = \<lfloor>x\<rfloor>; r = x - of_int f
      in if r < 1 / 2 then f else if 1 / 2 < r then f + 1 else if even f then f else f + 1)"

definition dec_ctx :: "rat \<Rightarrow> rat" where
  "dec_ctx v =
     (if \<bar>v\<bar> < 10 ^ 26 then v
      else (let unit = 10 ^ (floorlog 10 (nat \<lfloor>\<bar>v\<bar>\<rfloor>) - 26) / 100
            in of_int (round_half_even (v / unit)) * unit))"

definition dec_add :: "rat \<Rightarrow> rat \<Rightarrow> rat" where
  "dec_add a b = dec_ctx (a + b)"

definition dec_mul :: "rat \<Rightarrow> rat \<Rightarrow> rat" where
  "dec_mul a b = dec_ctx (a * b)"

text \<open>Python's \<^verbatim>\<open>int(d)\<close> on a \<^verbatim>\<open>Decimal\<close> truncates towards zero.\<close>

definition py_int :: "rat \<Rightarrow> int" where
  "py_int x = (if 0 \<le> x then \<lfloor>x\<rfloor> else \<lceil>x\<rceil>)"

subsection \<open>Exceptions\<close>

text \<open>
  \<open>OutOfRange\<close> stands for the error of a value that does not fit its column (Django's
  \<^verbatim>\<open>DataError\<close>; with SQLite an \<^verbatim>\<open>OverflowError\<close> of the driver or a
  \<^verbatim>\<open>decimal.InvalidOperation\<close>), \<open>ApiError\<close> for a failed call of the Telegram API.
\<close>

datatype exc =
    AttributeError
  | KeyError string
  | DoesNotExist
  | IntegrityError
  | OutOfRange
  | ApiError string

section \<open>Persisted entities (\<^verbatim>\<open>core/models.py\<close>)\<close>

text \<open>
  A table is the list of its rows. The time stamps, the catalogue fields that no modelled
  operation reads, and the key of an order line, which nothing reads, are left out.
\<close>

record product =
  product_pk :: int
  product_name :: pystr
  product_price :: rat
  product_image :: "string option"

record cart_item =
  cart_item_pk :: int
  cart_user_id :: int
  cart_product_id :: int
  cart_quantity :: int

record order =
  order_pk :: int
  order_user_id :: int
  order_name :: pystr
  order_phone :: pystr
  order_address :: pystr
  order_total_amount :: rat
  order_is_completed :: bool
  order_payment_id :: "string option"
  order_payment_url :: "string option"
  order_payment_status :: string

record order_item =
  order_item_order_id :: int
  order_item_product_id :: int
  order_item_quantity :: int
  order_item_price :: rat

text \<open>
  The database: the four tables, and what the database engine of the settings fixes,
  namely the largest value of an \<^verbatim>\<open>IntegerField\<close> and of a \<^verbatim>\<open>PositiveIntegerField\<close>
  column (\<open>2 ^ 31 - 1\<close> with PostgreSQL, \<open>2 ^ 63 - 1\<close> with SQLite) and whether the
  \<^verbatim>\<open>max_length\<close> of a \<^verbatim>\<open>CharField\<close> is enforced (PostgreSQL does, SQLite does not).
\<close>

record db =
  Product_objects :: "product list"
  CartItem_objects :: "cart_item list"
  Order_objects :: "order list"
  OrderItem_objects :: "order_item list"
  IntegerField_max :: int
  PositiveIntegerField_max :: int
  enforces_max_length :: bool

text \<open>
  What the database decides during one call of a repository function: the primary key it
  assigns to the row the call inserts, and for the \<open>n\<close>-th write of the call whether it
  fails for a reason that is not spelt out here (a lost connection, a lock, a full
  disk); \<open>None\<close>: it does not.
\<close>

record dbms =
  assigned_pk :: int
  write_fails :: "nat \<Rightarrow> exc option"

subsection \<open>What a column accepts\<close>

definition BigIntegerField_ok :: "int \<Rightarrow> bool" where
  "BigIntegerField_ok v = (- (2 ^ 63) \<le> v \<and> v < 2 ^ 63)"

definition IntegerField_ok :: "db \<Rightarrow> int \<Rightarrow> bool" where
  "IntegerField_ok d v = (- IntegerField_max d - 1 \<le> v \<and> v \<le> IntegerField_max d)"

definition CharField_ok :: "db \<Rightarrow> nat \<Rightarrow> pystr \<Rightarrow> bool" where
  "CharField_ok d max_length s = (if enforces_max_length d then length s \<le> max_length else True)"

text \<open>
  \<^verbatim>\<open>DecimalField(max_digits=10, decimal_places=2)\<close>: the value is rounded to two decimal
  places, to the nearest value and in a tie to the even digit, and is refused when the
  result has more than ten digits.
\<close>

definition quantize_2 :: "rat \<Rightarrow> rat" where
  "quantize_2 v = of_int (round_half_even (v * 100)) / 100"

definition fits_10_2 :: "rat \<Rightarrow> bool" where
  "fits_10_2 v = (\<bar>round_half_even (v * 100)\<bar> < 10 ^ 10)"

text \<open>
  The values that an \<^verbatim>\<open>Order\<close> row and an \<^verbatim>\<open>OrderItem\<close> row need for their columns:
  a user id in the range of \<^verbatim>\<open>BigIntegerField\<close>, a name and a phone within their
  \<^verbatim>\<open>max_length\<close>, a total and a price within ten digits, and a quantity that is not
  negative and within the range of \<^verbatim>\<open>PositiveIntegerField\<close>.
\<close>

definition Order_row_ok :: "db \<Rightarrow> int \<Rightarrow> pystr \<Rightarrow> pystr \<Rightarrow> rat \<Rightarrow> bool" where
  "Order_row_ok d user_id name phone total_amount =
     (BigIntegerField_ok user_id \<and> CharField_ok d 255 name \<and> CharField_ok d 20 phone \<and>
      fits_10_2 total_amount)"

definition OrderItem_row_ok :: "db \<Rightarrow> int \<Rightarrow> rat \<Rightarrow> bool" where
  "OrderItem_row_ok d quantity price =
     (0 \<le> quantity \<and> quantity \<le> PositiveIntegerField_max d \<and> fits_10_2 price)"

subsection \<open>Invariants and derived notions\<close>

text \<open>
  The prices of the catalogue are values of a \<^verbatim>\<open>DecimalField(max_digits=10,
  decimal_places=2)\<close> column, and no product has a negative price.
\<close>

definition prices_ok :: "db \<Rightarrow> bool" where
  "prices_ok d = list_all (\<lambda>p. two_places (product_price p) \<and> 0 \<le> product_price p) (Product_objects d)"

text \<open>
  Referential integrity of order lines, which the foreign key of \<^verbatim>\<open>OrderItem.order\<close>
  maintains: every line belongs to an order of the table.
\<close>

definition order_fk_ok :: "db \<Rightarrow> bool" where
  "order_fk_ok d =
     list_all (\<lambda>r. order_item_order_id r \<in> set (map order_pk (Order_objects d))) (OrderItem_objects d)"

text \<open>The lines of an order, and the sum of unit price times quantity over them.\<close>

definition lines_of_order :: "int \<Rightarrow> db \<Rightarrow> order_item list" where
  "lines_of_order oid d = filter (\<lambda>r. order_item_order_id r = oid) (OrderItem_objects d)"

definition lines_total :: "int \<Rightarrow> db \<Rightarrow> rat" where
  "lines_total oid d =
     sum_list (map (\<lambda>r. order_item_price r * of_int (order_item_quantity r)) (lines_of_order oid d))"

text \<open>
  Total consistency of the order \<open>oid\<close>: the order exists, and its \<^verbatim>\<open>total_amount\<close> is
  the sum of unit price times quantity over its lines.
\<close>

definition total_consistent :: "int \<Rightarrow> db \<Rightarrow> bool" where
  "total_consistent oid d =
     (list_ex (\<lambda>x. order_pk x = oid) (Order_objects d) \<and>
      list_all (\<lambda>x. order_pk x = oid \<longrightarrow> order_total_amount x = lines_total oid d) (Order_objects d))"

section \<open>Conversation state (\<^verbatim>\<open>FSMContext\<close>, \<^verbatim>\<open>utils/states.py\<close>)\<close>

datatype stage = waiting_for_quantity | waiting_for_name | waiting_for_phone | waiting_for_address

text \<open>
  The scratch data of the checkout holds \<^verbatim>\<open>message.text\<close> values, which are a string or
  \<^verbatim>\<open>None\<close>.
\<close>

record fsm =
  fsm_state :: "stage option"
  fsm_data :: "string \<rightharpoonup> pystr option"

definition fsm_clear :: "fsm \<Rightarrow> fsm" where
  "fsm_clear f = \<lparr>fsm_state = None, fsm_data = Map.empty\<rparr>"

definition fsm_update_data :: "string \<Rightarrow> pystr option \<Rightarrow> fsm \<Rightarrow> fsm" where
  "fsm_update_data k v f = f\<lparr>fsm_data := (fsm_data f)(k \<mapsto> v)\<rparr>"

definition fsm_set_state :: "stage \<Rightarrow> fsm \<Rightarrow> fsm" where
  "fsm_set_state st f = f\<lparr>fsm_state := Some st\<rparr>"

section \<open>Cart store (\<^verbatim>\<open>bot/db/cart.py\<close>)\<close>

text \<open>\<^verbatim>\<open>QuerySet.first()\<close>: the row with the smallest primary key, \<^verbatim>\<open>None\<close> if there is none.\<close>

definition first_by_pk :: "cart_item list \<Rightarrow> cart_item option" where
  "first_by_pk rows = (case sort_key cart_item_pk rows of [] \<Rightarrow> None | r # _ \<Rightarrow> Some r)"

definition cart_lines :: "int \<Rightarrow> int \<Rightarrow> db \<Rightarrow> cart_item list" where
  "cart_lines user_id product_id d =
     filter (\<lambda>r. cart_user_id r = user_id \<and> cart_product_id r = product_id) (CartItem_objects d)"

definition product_exists :: "int \<Rightarrow> db \<Rightarrow> bool" where
  "product_exists pid d = (pid \<in> set (map product_pk (Product_objects d)))"

text \<open>
  \<^verbatim>\<open>instance.save()\<close> of a fetched cart line: an update of the row with that primary key,
  which raises when the new quantity does not fit the \<^verbatim>\<open>IntegerField\<close> column.
\<close>

definition save_cart_item :: "cart_item \<Rightarrow> cart_item list \<Rightarrow> cart_item list" where
  "save_cart_item r rows = map (\<lambda>x. if cart_item_pk x = cart_item_pk r then r else x) rows"

definition cart_item_save :: "dbms \<Rightarrow> cart_item \<Rightarrow> db \<Rightarrow> (exc + unit) \<times> db" where
  "cart_item_save S self d =
     (case write_fails S 0 of
        Some e \<Rightarrow> (Inl e, d)
      | None \<Rightarrow>
          if \<not> IntegerField_ok d (cart_quantity self) then (Inl OutOfRange, d)
          else (Inr (), d\<lparr>CartItem_objects := save_cart_item self (CartItem_objects d)\<rparr>))"

text \<open>
  \<^verbatim>\<open>CartItem.objects.create\<close>: the insert raises when the product does not exist (the
  foreign key), when a value does not fit its column, and when the key is taken; else
  the row is appended with the key that the database assigns.
\<close>

definition CartItem_objects_create :: "dbms \<Rightarrow> int \<Rightarrow> int \<Rightarrow> int \<Rightarrow> db \<Rightarrow> (exc + unit) \<times> db" where
  "CartItem_objects_create S user_id product_id quantity d =
     (case write_fails S 0 of
        Some e \<Rightarrow> (Inl e, d)
      | None \<Rightarrow>
          if \<not> BigIntegerField_ok user_id \<or> \<not> IntegerField_ok d quantity then (Inl OutOfRange, d)
          else if \<not> product_exists product_id d then (Inl IntegrityError, d)
          else if assigned_pk S \<in> set (map cart_item_pk (CartItem_objects d)) then (Inl IntegrityError, d)
          else (Inr (),
                d\<lparr>CartItem_objects := CartItem_objects d @
                    [\<lparr>cart_item_pk = assigned_pk S, cart_user_id = user_id,
                      cart_product_id = product_id, cart_quantity = quantity\<rparr>]\<rparr>))"

text \<open>
  \<^verbatim>\<open>add_item_to_cart\<close>. The function has no handler: an error of the database reaches
  the caller.
\<close>

definition add_item_to_cart :: "dbms \<Rightarrow> int \<Rightarrow> int \<Rightarrow> int \<Rightarrow> db \<Rightarrow> (exc + bool) \<times> db" where
  "add_item_to_cart S user_id product_id quantity d =
     (case first_by_pk (cart_lines user_id product_id d) of
        Some cart_item \<Rightarrow>
          (case cart_item_save S (cart_item\<lparr>cart_quantity := cart_quantity cart_item + quantity\<rparr>) d of
             (Inl e, d') \<Rightarrow> (Inl e, d')
           | (Inr u, d') \<Rightarrow> (Inr True, d'))
      | None \<Rightarrow>
          (case CartItem_objects_create S user_id product_id quantity d of
             (Inl e, d') \<Rightarrow> (Inl e, d')
           | (Inr u, d') \<Rightarrow> (Inr True, d')))"

text \<open>The dictionaries that \<^verbatim>\<open>get_cart_items\<close> builds: one per cart line, always with these keys.\<close>

record cart_dict =
  item_id :: int
  item_product_id :: int
  item_name :: pystr
  item_price :: rat
  item_quantity :: int
  item_image :: "string option"

text \<open>
  \<^verbatim>\<open>get_cart_items\<close>: the user's lines joined with their products
  (\<^verbatim>\<open>select_related\<close> is an inner join: a line without product yields no row).
\<close>

definition get_cart_items :: "int \<Rightarrow> db \<Rightarrow> cart_dict list" where
  "get_cart_items user_id d =
     concat (map (\<lambda>item.
        case find (\<lambda>p. product_pk p = cart_product_id item) (Product_objects d) of
          None \<Rightarrow> []
        | Some p \<Rightarrow> [\<lparr>item_id = cart_item_pk item, item_product_id = product_pk p,
                       item_name = product_name p, item_price = product_price p,
                       item_quantity = cart_quantity item, item_image = product_image p\<rparr>])
       (filter (\<lambda>r. cart_user_id r = user_id) (CartItem_objects d)))"

section \<open>Order repository (\<^verbatim>\<open>bot/db/orders.py\<close>)\<close>

text \<open>
  \<^verbatim>\<open>with transaction.atomic()\<close>: when the block raises, every write of the block is undone
  and the exception goes on to the caller.
\<close>

definition atomic :: "(db \<Rightarrow> (exc + 'a) \<times> db) \<Rightarrow> db \<Rightarrow> (exc + 'a) \<times> db" where
  "atomic body d = (case body d of (Inl e, d') \<Rightarrow> (Inl e, d) | (Inr x, d') \<Rightarrow> (Inr x, d'))"

text \<open>
  \<^verbatim>\<open>Order.objects.create\<close>, the first write of \<^verbatim>\<open>create_order\<close>: the insert raises when
  the user id, the name, the phone or the total does not fit its column and when the
  key is taken; else the row is appended with the key that the database assigns and
  with the total rounded to the two decimal places of the column.
\<close>

definition Order_objects_create ::
  "dbms \<Rightarrow> int \<Rightarrow> pystr \<Rightarrow> pystr \<Rightarrow> pystr \<Rightarrow> rat \<Rightarrow> db \<Rightarrow> (exc + order) \<times> db" where
  "Order_objects_create S user_id name phone address total_amount d =
     (case write_fails S 0 of
        Some e \<Rightarrow> (Inl e, d)
      | None \<Rightarrow>
          if \<not> BigIntegerField_ok user_id \<or> \<not> CharField_ok d 255 name \<or> \<not> CharField_ok d 20 phone \<or>
             \<not> fits_10_2 total_amount
          then (Inl OutOfRange, d)
          else if assigned_pk S \<in> set (map order_pk (Order_objects d)) then (Inl IntegrityError, d)
          else (let order = \<lparr>order_pk = assigned_pk S,
                              order_user_id = user_id, order_name = name, order_phone = phone,
                              order_address = address, order_total_amount = quantize_2 total_amount,
                              order_is_completed = False, order_payment_id = None,
                              order_payment_url = None, order_payment_status = ''pending''\<rparr>
                in (Inr order, d\<lparr>Order_objects := Order_objects d @ [order]\<rparr>)))"

text \<open>
  \<^verbatim>\<open>OrderItem.objects.create\<close>, the \<open>n\<close>-th write of \<^verbatim>\<open>create_order\<close>: the insert raises
  when the quantity is negative (the check of \<^verbatim>\<open>PositiveIntegerField\<close>) and when the
  quantity or the price does not fit its column.
\<close>

definition OrderItem_objects_create ::
  "dbms \<Rightarrow> nat \<Rightarrow> int \<Rightarrow> int \<Rightarrow> int \<Rightarrow> rat \<Rightarrow> db \<Rightarrow> (exc + unit) \<times> db" where
  "OrderItem_objects_create S n order_id product_id quantity price d =
     (case write_fails S n of
        Some e \<Rightarrow> (Inl e, d)
      | None \<Rightarrow>
          if quantity < 0 then (Inl IntegrityError, d)
          else if PositiveIntegerField_max d < quantity \<or> \<not> fits_10_2 price then (Inl OutOfRange, d)
          else (Inr (),
                d\<lparr>OrderItem_objects := OrderItem_objects d @
                    [\<lparr>order_item_order_id = order_id, order_item_product_id = product_id,
                      order_item_quantity = quantity, order_item_price = quantize_2 price\<rparr>]\<rparr>))"

text \<open>The loop over \<^verbatim>\<open>items\<close> in \<^verbatim>\<open>create_order\<close>; \<open>n\<close> counts the writes.\<close>

fun create_order_items :: "dbms \<Rightarrow> nat \<Rightarrow> int \<Rightarrow> cart_dict list \<Rightarrow> db \<Rightarrow> (exc + unit) \<times> db" where
  "create_order_items S n oid [] d = (Inr (), d)"
| "create_order_items S n oid (item # items) d =
     (case find (\<lambda>p. product_pk p = item_product_id item) (Product_objects d) of
        None \<Rightarrow> (Inl DoesNotExist, d)
      | Some product \<Rightarrow>
          (case OrderItem_objects_create S n oid (product_pk product) (item_quantity item)
                  (item_price item) d of
             (Inl e, d') \<Rightarrow> (Inl e, d')
           | (Inr u, d') \<Rightarrow> create_order_items S (Suc n) oid items d'))"

definition create_order ::
  "dbms \<Rightarrow> int \<Rightarrow> cart_dict list \<Rightarrow> pystr \<Rightarrow> pystr \<Rightarrow> pystr \<Rightarrow> rat \<Rightarrow> db \<Rightarrow> (exc + int) \<times> db" where
  "create_order S user_id items name phone address total_amount =
     atomic (\<lambda>d.
       case Order_objects_create S user_id name phone address total_amount d of
         (Inl e, d1) \<Rightarrow> (Inl e, d1)
       | (Inr order, d1) \<Rightarrow>
           (case create_order_items S 1 (order_pk order) items d1 of
              (Inl e, d2) \<Rightarrow> (Inl e, d2)
            | (Inr u, d2) \<Rightarrow> (Inr (order_pk order), d2)))"

text \<open>
  \<^verbatim>\<open>update_order_payment_info\<close>. The body of its \<^verbatim>\<open>try\<close> comes first; \<open>save_raises\<close>
  says whether the database rejects the update (\<open>None\<close>: it does not).
\<close>

datatype printed = OrderNotFound int | PaymentInfoError exc

definition save_order :: "order \<Rightarrow> order list \<Rightarrow> order list" where
  "save_order r rows = map (\<lambda>x. if order_pk x = order_pk r then r else x) rows"

definition update_order_payment_info_try ::
  "exc option \<Rightarrow> int \<Rightarrow> string \<Rightarrow> string option \<Rightarrow> string \<Rightarrow> db \<Rightarrow> (exc + bool) \<times> db" where
  "update_order_payment_info_try save_raises oid payment_id payment_url payment_status d =
     (case find (\<lambda>x. order_pk x = oid) (Order_objects d) of
        None \<Rightarrow> (Inl DoesNotExist, d)
      | Some order \<Rightarrow>
          (let order = order\<lparr>order_payment_id := Some payment_id,
                             order_payment_url := payment_url,
                             order_payment_status := payment_status\<rparr>
           in case save_raises of
                Some e \<Rightarrow> (Inl e, d)
              | None \<Rightarrow> (Inr True, d\<lparr>Order_objects := save_order order (Order_objects d)\<rparr>)))"

definition update_order_payment_info ::
  "exc option \<Rightarrow> int \<Rightarrow> string \<Rightarrow> string option \<Rightarrow> string \<Rightarrow> db \<Rightarrow>
   (exc + bool) \<times> printed list \<times> db" where
  "update_order_payment_info save_raises oid payment_id payment_url payment_status d =
     (case update_order_payment_info_try save_raises oid payment_id payment_url payment_status d of
        (Inr b, d') \<Rightarrow> (Inr b, [], d')
      | (Inl DoesNotExist, d') \<Rightarrow> (Inr False, [OrderNotFound oid], d')
      | (Inl e, d') \<Rightarrow> (Inr False, [PaymentInfoError e], d'))"

section \<open>Payment gateway client (\<^verbatim>\<open>services/payments.py\<close>)\<close>

text \<open>Truth value of an \<^verbatim>\<open>Optional[str]\<close>: \<^verbatim>\<open>None\<close> and the empty string are false.\<close>

definition truthy_str :: "'a list option \<Rightarrow> bool" where
  "truthy_str v = (case v of None \<Rightarrow> False | Some s \<Rightarrow> s \<noteq> [])"

text \<open>The description of a payment is the order's number inside a fixed sentence.\<close>

datatype description = OrderDescription int

record payload =
  TerminalKey :: string
  Amount :: int
  OrderId :: string
  Description :: description
  DATA :: "(string \<rightharpoonup> pystr) option"
  SuccessURL :: "string option"

record TinkoffPayment =
  terminal_key :: string
  password :: string

text \<open>The scalar JSON values read from the gateway's answer, and their Python truth value.\<close>

datatype json = JNull | JBool bool | JNum int | JStr string

fun truthy :: "json option \<Rightarrow> bool" where
  "truthy None = False"
| "truthy (Some JNull) = False"
| "truthy (Some (JBool b)) = b"
| "truthy (Some (JNum n)) = (n \<noteq> 0)"
| "truthy (Some (JStr s)) = (s \<noteq> [])"

text \<open>
  What the request to the gateway does: it raises (no connection, a time-out, an answer
  that is not JSON) or yields the decoded JSON, which is an object or some other value.
\<close>

datatype response = NotADict | Dict "string \<rightharpoonup> json"

datatype http_outcome = HttpRaises string | HttpJson response

text \<open>
  The request body of \<^verbatim>\<open>create_payment\<close>. The amount is the \<^verbatim>\<open>Decimal\<close> that the only
  caller, \<^verbatim>\<open>process_address\<close>, passes.
\<close>

definition create_payment_payload ::
  "TinkoffPayment \<Rightarrow> string \<Rightarrow> rat \<Rightarrow> description \<Rightarrow> pystr option \<Rightarrow> pystr option \<Rightarrow>
   string option \<Rightarrow> payload" where
  "create_payment_payload self order_id amount description customer_email customer_phone success_url =
     (let payload = \<lparr>TerminalKey = terminal_key self, Amount = py_int (dec_mul amount 100),
                      OrderId = order_id, Description = description,
                      DATA = None, SuccessURL = None\<rparr>;
          payload = (if truthy_str customer_email \<or> truthy_str customer_phone then
                       (let d = Map.empty;
                            d = (if truthy_str customer_phone then d(''Phone'' \<mapsto> the customer_phone) else d);
                            d = (if truthy_str customer_email then d(''Email'' \<mapsto> the customer_email) else d)
                        in payload\<lparr>DATA := Some d\<rparr>)
                     else payload);
          payload = (if truthy_str success_url then payload\<lparr>SuccessURL := success_url\<rparr> else payload)
      in payload)"

text \<open>
  \<^verbatim>\<open>create_payment\<close> yields the request body it posted and the dictionary it returns:
  the answer of the gateway, or, when the request raises, a dictionary with
  \<^verbatim>\<open>Success\<close> false and the message of the exception.
\<close>

definition create_payment ::
  "(payload \<Rightarrow> http_outcome) \<Rightarrow> TinkoffPayment \<Rightarrow> string \<Rightarrow> rat \<Rightarrow> description \<Rightarrow>
   pystr option \<Rightarrow> pystr option \<Rightarrow> string option \<Rightarrow> payload \<times> response" where
  "create_payment post self order_id amount description customer_email customer_phone success_url =
     (let payload = create_payment_payload self order_id amount description
                      customer_email customer_phone success_url
      in (payload,
          case post payload of
            HttpJson r \<Rightarrow> r
          | HttpRaises e \<Rightarrow> Dict [''Success'' \<mapsto> JBool False, ''Message'' \<mapsto> JStr e]))"

section \<open>Checkout handlers (\<^verbatim>\<open>bot/handlers/catalog/checkout.py\<close>)\<close>

subsection \<open>What a handler acts on\<close>

text \<open>
  The messages of the bot, by their role; \<open>order_details\<close> is the data printed in the
  order summary.
\<close>

record order_details =
  details_lines :: "(pystr \<times> rat \<times> int \<times> rat) list"
  details_total :: rat
  details_name :: "pystr option"
  details_phone :: "pystr option"
  details_address :: "pystr option"

datatype reply =
    BadPhoneMsg
  | AskAddressMsg
  | ErrorMsg
  | WaitMsg
  | CartEmptyMsg
  | PayLinkMsg int rat "json option"
  | DegradedMsg order_details
  | ApologyMsg

datatype tg_event = Answer reply | DeleteWaitMessage

text \<open>The places where a handler calls the Telegram API; each call may raise.\<close>

datatype tg_site =
    AnswerBadPhone | AnswerAskAddress | ReplyPhoneError
  | AnswerWait | DeleteWaitEmptyCart | AnswerCartEmpty | DeleteWait
  | AnswerPayLink | AnswerDegraded | DeleteWaitOnError | AnswerApology

text \<open>
  The environment of one handler run: for each Telegram call whether it raises
  (\<open>None\<close>: it succeeds), what the spreadsheet export returns, what the request to the
  payment gateway does, the random hexadecimal string of \<^verbatim>\<open>uuid4\<close>, what the database
  decides when the order is created, whether saving the payment fields raises, and the
  configured credentials.
\<close>

record env =
  tg :: "tg_site \<Rightarrow> exc option"
  sheets_saved :: bool
  post :: "payload \<Rightarrow> http_outcome"
  uuid4_hex :: string
  storage :: dbms
  save_raises :: "exc option"
  TINKOFF_TERMINAL_KEY :: string
  TINKOFF_PASSWORD :: string

text \<open>
  The state a handler run reads and writes: the database, the user's conversation
  state, the calls made to Telegram, the bodies posted to the gateway, the lines
  printed, and the local variable \<^verbatim>\<open>wait_message\<close> (\<open>True\<close> while it holds a message).
  The message that a handler receives has a sender, as every message of a user's
  conversation has; of the message the handlers read the text, which is \<^verbatim>\<open>None\<close> for
  a message without text (a photo, a sticker), and the sender's id.
\<close>

record world =
  w_db :: db
  w_fsm :: fsm
  w_outbox :: "tg_event list"
  w_posted :: "payload list"
  w_printed :: "printed list"
  w_wait_message :: bool

type_synonym 'a act = "world \<Rightarrow> (exc + 'a) \<times> world"

definition ret :: "'a \<Rightarrow> 'a act" where
  "ret x w = (Inr x, w)"

definition raise :: "exc \<Rightarrow> 'a act" where
  "raise e w = (Inl e, w)"

definition bnd :: "'a act \<Rightarrow> ('a \<Rightarrow> 'b act) \<Rightarrow> 'b act" where
  "bnd m f w = (case m w of (Inl e, w') \<Rightarrow> (Inl e, w') | (Inr x, w') \<Rightarrow> f x w')"

definition tg_call :: "env \<Rightarrow> tg_site \<Rightarrow> tg_event \<Rightarrow> unit act" where
  "tg_call E site ev w =
     (case tg E site of
        Some e \<Rightarrow> (Inl e, w)
      | None \<Rightarrow> (Inr (), w\<lparr>w_outbox := w_outbox w @ [ev]\<rparr>))"

definition state_update_data :: "string \<Rightarrow> pystr option \<Rightarrow> (string \<rightharpoonup> pystr option) act" where
  "state_update_data k v w =
     (let f = fsm_update_data k v (w_fsm w) in (Inr (fsm_data f), w\<lparr>w_fsm := f\<rparr>))"

definition state_set_state :: "stage \<Rightarrow> unit act" where
  "state_set_state st w = (Inr (), w\<lparr>w_fsm := fsm_set_state st (w_fsm w)\<rparr>)"

definition state_clear :: "unit act" where
  "state_clear w = (Inr (), w\<lparr>w_fsm := fsm_clear (w_fsm w)\<rparr>)"

definition set_wait_message :: "bool \<Rightarrow> unit act" where
  "set_wait_message b w = (Inr (), w\<lparr>w_wait_message := b\<rparr>)"

text \<open>\<^verbatim>\<open>d[k]\<close> on a dictionary.\<close>

definition getitem :: "(string \<rightharpoonup> 'v) \<Rightarrow> string \<Rightarrow> 'v act" where
  "getitem m k = (case m k of None \<Rightarrow> raise (KeyError k) | Some v \<Rightarrow> ret v)"

text \<open>How the \<^verbatim>\<open>try\<close> block of a handler ends: by \<^verbatim>\<open>return\<close>, or by running to its end.\<close>

datatype flow = Returned | Completed

subsection \<open>\<^verbatim>\<open>process_phone\<close>\<close>

text \<open>The \<^verbatim>\<open>if\<close>/\<^verbatim>\<open>elif\<close>/\<^verbatim>\<open>else\<close> that rewrites an accepted \<^verbatim>\<open>cleaned_phone\<close>.\<close>

definition normalized_phone :: "pystr \<Rightarrow> pystr" where
  "normalized_phone cleaned_phone =
     (if startswith cleaned_phone (py ''8'') then py ''+7'' @ drop 1 cleaned_phone
      else if startswith cleaned_phone (py ''7'') then py ''+'' @ cleaned_phone
      else py ''+7'' @ cleaned_phone)"

text \<open>
  The \<^verbatim>\<open>try\<close> block. For a message without text \<^verbatim>\<open>message.text\<close> is \<^verbatim>\<open>None\<close>, and
  \<^verbatim>\<open>message.text.strip()\<close> raises.
\<close>

definition process_phone_try :: "env \<Rightarrow> pystr option \<Rightarrow> flow act" where
  "process_phone_try E text =
     (case text of
        None \<Rightarrow> raise AttributeError
      | Some t \<Rightarrow>
          (let phone = strip t;
               cleaned_phone = sub_nondigits phone
           in if \<not> re_match_anchored phone_rx cleaned_phone then
                bnd (tg_call E AnswerBadPhone (Answer BadPhoneMsg)) (\<lambda>u. ret Returned)
              else
                (let cleaned_phone = normalized_phone cleaned_phone
                 in bnd (state_update_data ''phone'' (Some cleaned_phone)) (\<lambda>user_data.
                    bnd (tg_call E AnswerAskAddress (Answer AskAddressMsg)) (\<lambda>u.
                    bnd (state_set_state waiting_for_address) (\<lambda>u. ret Completed))))))"

text \<open>
  A handler run yields the exception that leaves the handler, if any, and the world it
  leaves behind. The \<^verbatim>\<open>except Exception\<close> block of \<^verbatim>\<open>process_phone\<close> replies with the
  general error message and then clears the conversation state.
\<close>

definition process_phone :: "env \<Rightarrow> pystr option \<Rightarrow> world \<Rightarrow> exc option \<times> world" where
  "process_phone E text w =
     (case process_phone_try E text w of
        (Inr r, w1) \<Rightarrow> (None, w1)
      | (Inl e, w1) \<Rightarrow>
          (case bnd (tg_call E ReplyPhoneError (Answer ErrorMsg)) (\<lambda>u. state_clear) w1 of
             (Inl e', w2) \<Rightarrow> (Some e', w2)
           | (Inr u, w2) \<Rightarrow> (None, w2)))"

subsection \<open>\<^verbatim>\<open>process_address\<close>\<close>

text \<open>\<^verbatim>\<open>str(n)\<close> for an integer.\<close>

fun str_nat :: "nat \<Rightarrow> string" where
  "str_nat n = (if n < 10 then [''0123456789'' ! n] else str_nat (n div 10) @ [''0123456789'' ! (n mod 10)])"

definition str_int :: "int \<Rightarrow> string" where
  "str_int i = (if i < 0 then ''-'' @ str_nat (nat (- i)) else str_nat (nat i))"

text \<open>
  The loop that adds up the cart: \<^verbatim>\<open>item_total = item['price'] * item['quantity']\<close> and
  \<^verbatim>\<open>total_sum += item_total\<close>, in \<^verbatim>\<open>Decimal\<close> arithmetic.
\<close>

definition cart_total :: "cart_dict list \<Rightarrow> rat" where
  "cart_total cart_items =
     fold (\<lambda>item total_sum. dec_add total_sum (dec_mul (item_price item) (of_int (item_quantity item))))
       cart_items 0"

definition make_order_details ::
  "cart_dict list \<Rightarrow> rat \<Rightarrow> pystr option \<Rightarrow> pystr option \<Rightarrow> pystr option \<Rightarrow> order_details" where
  "make_order_details cart_items total_sum name phone address =
     \<lparr>details_lines = map (\<lambda>item. (item_name item, item_price item, item_quantity item,
                                    dec_mul (item_price item) (of_int (item_quantity item)))) cart_items,
      details_total = total_sum, details_name = name, details_phone = phone,
      details_address = address\<rparr>"

text \<open>
  The call of \<^verbatim>\<open>create_order\<close> from the handler. The order's name, phone and address
  columns do not accept \<^verbatim>\<open>NULL\<close>: with a \<^verbatim>\<open>None\<close> among them the insert raises inside
  the transaction, which writes nothing.
\<close>

definition call_create_order ::
  "env \<Rightarrow> int \<Rightarrow> cart_dict list \<Rightarrow> pystr option \<Rightarrow> pystr option \<Rightarrow> pystr option \<Rightarrow> rat \<Rightarrow> int act" where
  "call_create_order E user_id items name phone address total_amount w =
     (case (name, phone, address) of
        (Some n, Some p, Some a) \<Rightarrow>
          (case create_order (storage E) user_id items n p a total_amount (w_db w) of
             (r, d) \<Rightarrow> (r, w\<lparr>w_db := d\<rparr>))
      | _ \<Rightarrow> (Inl IntegrityError, w))"

text \<open>
  \<^verbatim>\<open>save_order_to_google_sheets\<close> (\<^verbatim>\<open>bot/db/integrations.py\<close>) catches every exception
  of its body and returns a truth value; it writes nothing to the database.
\<close>

definition save_order_to_google_sheets :: "env \<Rightarrow> int \<Rightarrow> bool act" where
  "save_order_to_google_sheets E oid = ret (sheets_saved E)"

definition call_create_payment ::
  "env \<Rightarrow> TinkoffPayment \<Rightarrow> string \<Rightarrow> rat \<Rightarrow> description \<Rightarrow> pystr option \<Rightarrow> string option \<Rightarrow> response act" where
  "call_create_payment E self oid amount description customer_phone success_url w =
     (case create_payment (post E) self oid amount description None customer_phone success_url of
        (body, r) \<Rightarrow> (Inr r, w\<lparr>w_posted := w_posted w @ [body]\<rparr>))"

definition call_update_order_payment_info :: "env \<Rightarrow> int \<Rightarrow> string \<Rightarrow> string option \<Rightarrow> bool act" where
  "call_update_order_payment_info E oid payment_id payment_url w =
     (case update_order_payment_info (save_raises E) oid payment_id payment_url ''pending'' (w_db w) of
        (r, out, d) \<Rightarrow> (r, w\<lparr>w_db := d, w_printed := w_printed w @ out\<rparr>))"

text \<open>A \<^verbatim>\<open>PaymentURL\<close> of the answer as the value stored with the order.\<close>

definition url_text :: "json option \<Rightarrow> string option" where
  "url_text v = (case v of Some (JStr u) \<Rightarrow> Some u | _ \<Rightarrow> None)"

text \<open>
  The \<^verbatim>\<open>try\<close> block of \<^verbatim>\<open>process_address\<close>, in three parts. Its end: the wait
  message is deleted and the answer of the gateway is shown to the customer.
\<close>

definition show_payment_result ::
  "env \<Rightarrow> int \<Rightarrow> string \<Rightarrow> rat \<Rightarrow> order_details \<Rightarrow> response \<Rightarrow> flow act" where
  "show_payment_result E oid payment_id total_sum order_details payment_result =
     bnd (tg_call E DeleteWait DeleteWaitMessage) (\<lambda>u.
     bnd (set_wait_message False) (\<lambda>u.
     bnd (case payment_result of
            NotADict \<Rightarrow> raise AttributeError
          | Dict r \<Rightarrow>
              if truthy (r ''Success'') then
                (let payment_url = r ''PaymentURL''
                 in bnd (call_update_order_payment_info E oid payment_id (url_text payment_url)) (\<lambda>b.
                    tg_call E AnswerPayLink (Answer (PayLinkMsg oid total_sum payment_url))))
              else tg_call E AnswerDegraded (Answer (DegradedMsg order_details)))
         (\<lambda>u. ret Completed)))"

text \<open>
  Its middle, for a cart that is not empty: the total, the order summary, the order, the
  spreadsheet export and the payment.
\<close>

definition place_order ::
  "env \<Rightarrow> int \<Rightarrow> cart_dict list \<Rightarrow> (string \<rightharpoonup> pystr option) \<Rightarrow> flow act" where
  "place_order E user_id cart_items user_data =
     (let total_sum = cart_total cart_items
      in bnd (getitem user_data ''name'') (\<lambda>name.
         bnd (getitem user_data ''phone'') (\<lambda>phone.
         bnd (getitem user_data ''address'') (\<lambda>address.
         let order_details = make_order_details cart_items total_sum name phone address
         in bnd (call_create_order E user_id cart_items name phone address total_sum) (\<lambda>oid.
            bnd (save_order_to_google_sheets E oid) (\<lambda>saved.
            let payment_system = \<lparr>terminal_key = TINKOFF_TERMINAL_KEY E,
                                  password = TINKOFF_PASSWORD E\<rparr>;
                payment_id = ''order_'' @ str_int oid @ ''_'' @ take 8 (uuid4_hex E)
            in bnd (call_create_payment E payment_system payment_id total_sum
                      (OrderDescription oid) phone (Some ''https://t.me/your_bot_username''))
                 (show_payment_result E oid payment_id total_sum order_details)))))))"

text \<open>Its beginning: the wait message, the address, the cart as it is now.\<close>

definition process_address_try :: "env \<Rightarrow> pystr option \<Rightarrow> int \<Rightarrow> flow act" where
  "process_address_try E text user_id =
     bnd (tg_call E AnswerWait (Answer WaitMsg)) (\<lambda>u.
     bnd (set_wait_message True) (\<lambda>u.
     bnd (state_update_data ''address'' text) (\<lambda>user_data.
     bnd (\<lambda>w. (Inr (get_cart_items user_id (w_db w)), w)) (\<lambda>cart_items.
       if cart_items = [] then
         bnd (tg_call E DeleteWaitEmptyCart DeleteWaitMessage) (\<lambda>u.
         bnd (tg_call E AnswerCartEmpty (Answer CartEmptyMsg)) (\<lambda>u.
         bnd state_clear (\<lambda>u. ret Returned)))
       else place_order E user_id cart_items user_data))))"

text \<open>
  The handler: the \<^verbatim>\<open>try\<close> block, its \<^verbatim>\<open>except Exception\<close> block (which deletes the
  wait message if there is one, ignoring a failure of that, and sends the apology), and
  the \<^verbatim>\<open>state.clear()\<close> that follows them.
\<close>

definition process_address_except :: "env \<Rightarrow> unit act" where
  "process_address_except E w =
     (let w = (if w_wait_message w then
                 (case tg_call E DeleteWaitOnError DeleteWaitMessage w of (r, w') \<Rightarrow> w')
               else w)
      in tg_call E AnswerApology (Answer ApologyMsg) w)"

definition process_address :: "env \<Rightarrow> pystr option \<Rightarrow> int \<Rightarrow> world \<Rightarrow> exc option \<times> world" where
  "process_address E text user_id w =
     (case process_address_try E text user_id (w\<lparr>w_wait_message := False\<rparr>) of
        (Inr Returned, w1) \<Rightarrow> (None, w1)
      | (Inr Completed, w1) \<Rightarrow> (None, snd (state_clear w1))
      | (Inl e, w1) \<Rightarrow>
          (case bnd (process_address_except E) (\<lambda>u. state_clear) w1 of
             (Inl e', w2) \<Rightarrow> (Some e', w2)
           | (Inr u, w2) \<Rightarrow> (None, w2)))"

section \<open>Subscription gate (\<^verbatim>\<open>bot/utils/subscription.py\<close>)\<close>

text \<open>
  A chat is named by a string or by a number. Each of the two Telegram calls returns a
  value or raises; of an exception the function reads only the message \<^verbatim>\<open>str(e)\<close>,
  which stands for the exception here.
\<close>

datatype chat_ref = ChatStr pystr | ChatInt int

record bot =
  get_chat :: "chat_ref \<Rightarrow> pystr + int"
  get_chat_member :: "chat_ref \<Rightarrow> int \<Rightarrow> pystr + pystr"

text \<open>
  The module imports its logger with \<^verbatim>\<open>from . import logger\<close>. This binds the name
  \<^verbatim>\<open>logger\<close> to the module \<^verbatim>\<open>bot/utils/logger.py\<close>, not to the object \<^verbatim>\<open>logger\<close> that the
  module defines (every other module of the bot writes
  \<^verbatim>\<open>from ..utils.logger import logger\<close>). The module defines \<^verbatim>\<open>setup_logger\<close> and
  \<^verbatim>\<open>logger\<close> and has no attribute \<^verbatim>\<open>error\<close>: evaluating \<^verbatim>\<open>logger.error\<close> raises.
\<close>

definition logger_error :: "exc + unit" where
  "logger_error = Inl AttributeError"

text \<open>
  The exceptions raised inside the function: a failed Telegram call with its message, or
  the \<^verbatim>\<open>AttributeError\<close> of \<^verbatim>\<open>logger.error\<close>, whose message names the module and the
  attribute. \<open>mentions_inaccessible e\<close> is the test
  \<^verbatim>\<open>"member list is inaccessible" in str(e)\<close>.
\<close>

datatype raised = TelegramError pystr | NoAttribute

fun mentions_inaccessible :: "raised \<Rightarrow> bool" where
  "mentions_inaccessible (TelegramError message) = contains (py ''member list is inaccessible'') message"
| "mentions_inaccessible NoAttribute = False"

text \<open>
  The body of the outer \<^verbatim>\<open>try\<close>: it returns a truth value (\<open>Inr\<close>) or raises (\<open>Inl\<close>).
  The handler of the inner \<^verbatim>\<open>try\<close> calls \<^verbatim>\<open>logger.error\<close> before it returns \<open>False\<close>.
\<close>

definition check_user_subscribed_try :: "bot \<Rightarrow> int \<Rightarrow> chat_ref \<Rightarrow> raised + bool" where
  "check_user_subscribed_try b user_id chat_id =
     (case (case chat_id of
              ChatStr s \<Rightarrow>
                if startswith s (py ''@'') then
                  (case get_chat b chat_id of
                     Inr i \<Rightarrow> Inr (ChatInt i)
                   | Inl message \<Rightarrow>
                       Inl (case logger_error of Inl e \<Rightarrow> Inl NoAttribute | Inr u \<Rightarrow> Inr False))
                else Inr chat_id
            | ChatInt i \<Rightarrow> Inr chat_id) of
        Inl leaves \<Rightarrow> leaves
      | Inr chat_id \<Rightarrow>
          (case get_chat_member b chat_id user_id of
             Inr status \<Rightarrow> Inr (status \<in> set [py ''creator'', py ''administrator'', py ''member''])
           | Inl message \<Rightarrow> Inl (TelegramError message)))"

text \<open>
  The function with its outer \<^verbatim>\<open>except Exception\<close> block: it returns a truth value
  (\<open>Inr\<close>), or an exception leaves it (\<open>Inl\<close>).
\<close>

definition check_user_subscribed :: "bot \<Rightarrow> int \<Rightarrow> chat_ref \<Rightarrow> exc + bool" where
  "check_user_subscribed b user_id chat_id =
     (case check_user_subscribed_try b user_id chat_id of
        Inr r \<Rightarrow> Inr r
      | Inl e \<Rightarrow>
          if mentions_inaccessible e then Inr True
          else (case logger_error of Inl x \<Rightarrow> Inl x | Inr u \<Rightarrow> Inr False))"

section \<open>What a placed order leaves behind\<close>

text \<open>
  The order line that \<^verbatim>\<open>create_order\<close> writes for an item of the cart snapshot.
\<close>

definition line_of_item :: "int \<Rightarrow> cart_dict \<Rightarrow> order_item" where
  "line_of_item oid i =
     \<lparr>order_item_order_id = oid, order_item_product_id = item_product_id i,
      order_item_quantity = item_quantity i, order_item_price = item_price i\<rparr>"

text \<open>
  The database \<open>d'\<close> is \<open>d\<close> with one more order, which has a key that no order of \<open>d\<close>
  has and the total of the cart snapshot \<open>items\<close>, and with one more order line per
  item of the snapshot, carrying the order's key and the item's product, quantity and
  price; and the total is the exact sum of price times quantity over the snapshot.
\<close>

definition order_placed :: "db \<Rightarrow> cart_dict list \<Rightarrow> db \<Rightarrow> bool" where
  "order_placed d items d' =
     (Order_objects d' \<noteq> [] \<and> butlast (Order_objects d') = Order_objects d \<and>
      order_pk (last (Order_objects d')) \<notin> set (map order_pk (Order_objects d)) \<and>
      order_total_amount (last (Order_objects d')) = cart_total items \<and>
      cart_total items = sum_list (map (\<lambda>i. item_price i * of_int (item_quantity i)) items) \<and>
      OrderItem_objects d' =
        OrderItem_objects d @ map (line_of_item (order_pk (last (Order_objects d')))) items \<and>
      Product_objects d' = Product_objects d \<and> CartItem_objects d' = CartItem_objects d)"

text \<open>
  The request bodies \<open>ps'\<close> are \<open>ps\<close> and one more, whose \<open>Amount\<close> is a hundred times
  the total of the cart snapshot.
\<close>

definition payment_posted :: "payload list \<Rightarrow> cart_dict list \<Rightarrow> payload list \<Rightarrow> bool" where
  "payment_posted ps items ps' =
     (ps' \<noteq> [] \<and> butlast ps' = ps \<and> of_int (Amount (last ps')) = cart_total items * 100)"

section \<open>A shop with one product and one customer\<close>

text \<open>
  Product 1 costs 100; customer 7 has two of it in the cart and has given name and
  phone. The database keeps 32-bit integers and enforces the lengths of strings. Every
  Telegram call succeeds, the database gives the new order the key 1 and accepts every
  write, and the gateway answers with a payment link.
\<close>

definition shop_db :: db where
  "shop_db =
     \<lparr>Product_objects = [\<lparr>product_pk = 1, product_name = py ''A'', product_price = 100,
                          product_image = None\<rparr>],
      CartItem_objects = [\<lparr>cart_item_pk = 1, cart_user_id = 7, cart_product_id = 1,
                           cart_quantity = 2\<rparr>],
      Order_objects = [],
      OrderItem_objects = [],
      IntegerField_max = 2147483647,
      PositiveIntegerField_max = 2147483647,
      enforces_max_length = True\<rparr>"

definition accepting :: "int \<Rightarrow> dbms" where
  "accepting k = \<lparr>assigned_pk = k, write_fails = (\<lambda>n. None)\<rparr>"

definition shop_world :: world where
  "shop_world =
     \<lparr>w_db = shop_db,
      w_fsm = \<lparr>fsm_state = Some waiting_for_address,
               fsm_data = [''name'' \<mapsto> Some (py ''Ivan''), ''phone'' \<mapsto> Some (py ''+79991234567'')]\<rparr>,
      w_outbox = [], w_posted = [], w_printed = [], w_wait_message = False\<rparr>"

text \<open>The same customer one step earlier, when the bot waits for the phone number.\<close>

definition phone_world :: world where
  "phone_world =
     shop_world\<lparr>w_fsm := \<lparr>fsm_state = Some waiting_for_phone,
                          fsm_data = [''name'' \<mapsto> Some (py ''Ivan'')]\<rparr>\<rparr>"

definition gateway_ok :: "payload \<Rightarrow> http_outcome" where
  "gateway_ok body =
     HttpJson (Dict [''Success'' \<mapsto> JBool True, ''PaymentURL'' \<mapsto> JStr ''https://pay.example/1''])"

definition shop_env :: env where
  "shop_env =
     \<lparr>tg = (\<lambda>site. None), sheets_saved = True, post = gateway_ok,
      uuid4_hex = ''0123456789abcdef0123456789abcdef'', storage = accepting 1,
      save_raises = None,
      TINKOFF_TERMINAL_KEY = ''TinkoffBankTest'', TINKOFF_PASSWORD = ''TinkoffBankTest''\<rparr>"

text \<open>The same shop when the customer has blocked the bot: every Telegram call raises.\<close>

definition blocked_env :: env where
  "blocked_env = shop_env\<lparr>tg := (\<lambda>site. Some (ApiError ''Forbidden: bot was blocked by the user''))\<rparr>"

text \<open>The same shop when the gateway cannot be reached.\<close>

definition offline_env :: env where
  "offline_env = shop_env\<lparr>post := (\<lambda>body. HttpRaises ''Cannot connect to host'')\<rparr>"

text \<open>The same shop when the gateway answers with a refusal.\<close>

definition refusing_env :: env where
  "refusing_env = shop_env\<lparr>post := (\<lambda>body. HttpJson (Dict [''Success'' \<mapsto> JBool False]))\<rparr>"

text \<open>The customer's order, and the shop after it has been placed.\<close>

definition shop_order :: order where
  "shop_order =
     \<lparr>order_pk = 1, order_user_id = 7, order_name = py ''Ivan'',
      order_phone = py ''+79991234567'', order_address = py ''Moscow, st. 1'',
      order_total_amount = 200, order_is_completed = False,
      order_payment_id = None, order_payment_url = None,
      order_payment_status = ''pending''\<rparr>"

definition placed_db :: db where
  "placed_db =
     shop_db\<lparr>Order_objects := [shop_order],
             OrderItem_objects :=
               [\<lparr>order_item_order_id = 1, order_item_product_id = 1,
                 order_item_quantity = 2, order_item_price = 100\<rparr>]\<rparr>"

text \<open>The summary of that order as the bot prints it.\<close>

definition shop_details :: order_details where
  "shop_details =
     \<lparr>details_lines = [(py ''A'', 100, 2, 200)], details_total = 200,
      details_name = Some (py ''Ivan''), details_phone = Some (py ''+79991234567''),
      details_address = Some (py ''Moscow, st. 1'')\<rparr>"

text \<open>
  A channel whose members are user 7 (a member) and user 8 (who has left); for user 9
  Telegram refuses to look into the member list, for anyone else it knows nothing.
\<close>

definition channel_bot :: bot where
  "channel_bot =
     \<lparr>get_chat = (\<lambda>c. if c = ChatStr (py ''@shop'') then Inr (-100)
                       else Inl (py ''Bad Request: chat not found'')),
      get_chat_member = (\<lambda>c u.
        if u = 7 then Inr (py ''member'')
        else if u = 8 then Inr (py ''left'')
        else if u = 9 then Inl (py ''Bad Request: member list is inaccessible'')
        else Inl (py ''Bad Request: user not found''))\<rparr>"

section \<open>Properties of the phone step\<close>

lemma isdecimal_ascii: "c < 128 \<Longrightarrow> isdecimal c \<longleftrightarrow> 48 \<le> c \<and> c \<le> 57"
  by (auto simp: isdecimal_def decimal_digit_runs_def)

lemma spaces_not_decimal:
  "list_all (\<lambda>c. \<not> isdecimal c)
     [9, 10, 11, 12, 13, 28, 29, 30, 31, 32, 133, 160, 5760, 8192, 8193, 8194, 8195,
      8196, 8197, 8198, 8199, 8200, 8201, 8202, 8232, 8233, 8239, 8287, 12288]"
  by (simp add: isdecimal_def decimal_digit_runs_def)

lemma digit_not_space: "isdecimal c \<Longrightarrow> \<not> isspace c"
  using spaces_not_decimal unfolding isspace_def list_all_iff by blast

lemma filter_dropWhile_disj: "(\<And>x. P x \<Longrightarrow> \<not> Q x) \<Longrightarrow> filter Q (dropWhile P xs) = filter Q xs"
  by (induction xs) auto

lemma sub_nondigits_strip: "sub_nondigits (strip t) = sub_nondigits t"
proof -
  have "filter isdecimal (dropWhile isspace xs) = filter isdecimal xs" for xs
    by (rule filter_dropWhile_disj) (use digit_not_space in blast)
  then show ?thesis
    by (simp add: sub_nondigits_def strip_def rev_filter [symmetric])
qed

lemma iterate_digits_gen:
  assumes f: "\<And>s. f s = (case s of [] \<Rightarrow> [] | x # t \<Rightarrow> if isdecimal x then [t] else [])"
  shows "iterate_rests f n s =
     (if n \<le> length s \<and> list_all isdecimal (take n s) then [drop n s] else [])"
proof (induction n arbitrary: s)
  case 0
  show ?case by simp
next
  case (Suc n)
  show ?case
  proof (cases s)
    case Nil
    then show ?thesis by (simp add: f [of "[]"])
  next
    case (Cons x t)
    show ?thesis
    proof (cases "isdecimal x")
      case True
      then show ?thesis using Cons by (simp add: f [of "x # t"] Suc)
    next
      case False
      then show ?thesis using Cons by (simp add: f [of "x # t"])
    qed
  qed
qed

lemma iterate_digits:
  "iterate_rests (rx_rests Dig) n s =
     (if n \<le> length s \<and> list_all isdecimal (take n s) then [drop n s] else [])"
  by (rule iterate_digits_gen) simp

lemma opt_country_rests:
  "rx_rests (Opt (Alt (Lit 55) (Lit 56))) s =
     (case s of [] \<Rightarrow> [[]] | x # t \<Rightarrow> if x = 55 \<or> x = 56 then [t, s] else [s])"
  by (cases s) auto

lemma list_all_take: "list_all P xs \<Longrightarrow> list_all P (take n xs)"
  by (auto simp: list_all_iff dest!: in_set_takeD)

lemma list_all_drop: "list_all P xs \<Longrightarrow> list_all P (drop n xs)"
  by (auto simp: list_all_iff dest!: in_set_dropD)

lemma at_dollar_digits: "list_all isdecimal r \<Longrightarrow> at_dollar r \<longleftrightarrow> r = []"
  by (auto simp: at_dollar_def isdecimal_ascii)

lemma phone_rx_digits:
  assumes "list_all isdecimal s"
  shows "re_match_anchored phone_rx s \<longleftrightarrow>
           length s = 10 \<or> (length s = 11 \<and> (hd s = 55 \<or> hd s = 56))"
proof (cases s)
  case Nil
  then show ?thesis
    by (simp add: re_match_anchored_def phone_rx_def iterate_digits at_dollar_def)
next
  case (Cons x t)
  with assms have dx: "isdecimal x" and dt: "list_all isdecimal t"
    by simp_all
  have a: "at_dollar (drop n t) \<longleftrightarrow> length t \<le> n" for n
    using at_dollar_digits [OF list_all_drop [OF dt]] by simp
  show ?thesis
    using Cons dx dt
    by (auto simp add: re_match_anchored_def phone_rx_def iterate_digits a
        opt_country_rests list_all_take)
qed

lemma sub_nondigits_all: "list_all isdecimal (sub_nondigits t)"
  by (simp add: sub_nondigits_def list_all_iff)

text \<open>
  What the regular expression accepts, in terms of the decimal digits of the text.
\<close>

lemma phone_rx_cleaned:
  "re_match_anchored phone_rx (sub_nondigits u) \<longleftrightarrow>
     length (filter isdecimal u) = 10 \<or>
     (length (filter isdecimal u) = 11 \<and>
      (hd (filter isdecimal u) = 55 \<or> hd (filter isdecimal u) = 56))"
  using phone_rx_digits [OF sub_nondigits_all, of u] by (simp add: sub_nondigits_def)

lemma startswith_single: "startswith c [x] \<longleftrightarrow> c \<noteq> [] \<and> hd c = x"
  by (cases c) (simp_all add: startswith_def)

lemma normalized_phone_cases:
  assumes "c \<noteq> []"
  shows "normalized_phone c =
     (if hd c = 56 then [43, 55] @ tl c else if hd c = 55 then [43] @ c else [43, 55] @ c)"
  using assms by (cases c) (simp_all add: normalized_phone_def py_def startswith_def)

lemma process_phone_accept:
  assumes "tg E AnswerAskAddress = None"
    and "length (filter isdecimal t) = 10 \<or>
         (length (filter isdecimal t) = 11 \<and>
          (hd (filter isdecimal t) = 55 \<or> hd (filter isdecimal t) = 56))"
  shows "process_phone E (Some t) w =
     (None, w\<lparr>w_fsm := (w_fsm w)\<lparr>fsm_state := Some waiting_for_address,
                  fsm_data := (fsm_data (w_fsm w))(''phone'' \<mapsto> Some
                     (if hd (filter isdecimal t) = 56 then [43, 55] @ tl (filter isdecimal t)
                      else if hd (filter isdecimal t) = 55 then [43] @ filter isdecimal t
                      else [43, 55] @ filter isdecimal t))\<rparr>,
              w_outbox := w_outbox w @ [Answer AskAddressMsg]\<rparr>)"
proof -
  have m: "re_match_anchored phone_rx (sub_nondigits t)"
    using assms(2) by (rule phone_rx_cleaned [THEN iffD2])
  have ne: "filter isdecimal t \<noteq> []"
    using assms(2) by auto
  show ?thesis
    using assms(1) m
    by (simp add: process_phone_def process_phone_try_def sub_nondigits_strip bnd_def tg_call_def
        ret_def state_update_data_def state_set_state_def Let_def fsm_update_data_def
        fsm_set_state_def)
      (simp add: sub_nondigits_def normalized_phone_cases [OF ne])
qed

lemma process_phone_reject:
  assumes "tg E AnswerBadPhone = None"
    and "\<not> (length (filter isdecimal t) = 10 \<or>
         (length (filter isdecimal t) = 11 \<and>
          (hd (filter isdecimal t) = 55 \<or> hd (filter isdecimal t) = 56)))"
  shows "process_phone E (Some t) w = (None, w\<lparr>w_outbox := w_outbox w @ [Answer BadPhoneMsg]\<rparr>)"
proof -
  have "\<not> re_match_anchored phone_rx (sub_nondigits t)"
    using assms(2) phone_rx_cleaned [of t] by blast
  then show ?thesis
    using assms(1)
    by (simp add: process_phone_def process_phone_try_def sub_nondigits_strip bnd_def tg_call_def
        ret_def Let_def)
qed

lemma process_phone_no_text_gen:
  assumes "tg E ReplyPhoneError = None"
  shows "process_phone E None w =
     (None, w\<lparr>w_outbox := w_outbox w @ [Answer ErrorMsg],
              w_fsm := \<lparr>fsm_state = None, fsm_data = Map.empty\<rparr>\<rparr>)"
  using assms
  by (simp add: process_phone_def process_phone_try_def raise_def bnd_def tg_call_def
      state_clear_def fsm_clear_def)

lemma digits_of_examples:
  shows e1: "filter isdecimal (py ''89991234567'') = py ''89991234567''"
    and e2: "filter isdecimal (py ''+79991234567'') = py ''79991234567''"
    and e3: "filter isdecimal (py ''9991234567'') = py ''9991234567''"
    and e4: "filter isdecimal (py ''8(999)123-45-67'') = py ''89991234567''"
    and e5: "filter isdecimal (py ''123'') = py ''123''"
    and e6: "filter isdecimal (py ''8 (999) 123-45-67'') = py ''89991234567''"
    and e7: "filter isdecimal (py ''916 111-22-33'') = py ''9161112233''"
    and e8: "filter isdecimal (py ''8123456789'') = py ''8123456789''"
    and e9: "filter isdecimal (py ''7123456789'') = py ''7123456789''"
  by (simp_all add: py_def isdecimal_ascii)

lemma arabic_indic_digits:
  "filter isdecimal [1641, 1641, 1641, 45, 1633, 1634, 1635, 45, 1636, 1637, 45, 1638, 1639] =
     [1641, 1641, 1641, 1633, 1634, 1635, 1636, 1637, 1638, 1639]"
  by (simp add: isdecimal_def decimal_digit_runs_def)

lemma phone_of_accepted:
  assumes "tg E AnswerAskAddress = None"
    and "filter isdecimal t = ds"
    and "length ds = 10 \<or> (length ds = 11 \<and> (hd ds = 55 \<or> hd ds = 56))"
  shows "fsm_state (w_fsm (snd (process_phone E (Some t) w))) = Some waiting_for_address \<and>
         fsm_data (w_fsm (snd (process_phone E (Some t) w))) ''phone'' =
           Some (Some (if hd ds = 56 then [43, 55] @ tl ds
                       else if hd ds = 55 then [43] @ ds else [43, 55] @ ds))"
proof -
  have "length (filter isdecimal t) = 10 \<or>
         (length (filter isdecimal t) = 11 \<and>
          (hd (filter isdecimal t) = 55 \<or> hd (filter isdecimal t) = 56))"
    using assms(3) unfolding assms(2) .
  from process_phone_accept [OF assms(1) this, of w] show ?thesis
    unfolding assms(2) by simp
qed

text \<open>
  C3. The phone step, when the bot's replies are delivered. For a text message the
  decimal digits of the text are kept. If they are ten digits, or eleven digits that
  start with 7 or 8, the stage becomes \<open>waiting_for_address\<close> and the phone is stored in
  this form: a leading 8 is replaced by \<open>+7\<close>, a leading 7 gets a \<open>+\<close> in front, any
  other number gets \<open>+7\<close> in front; else the state is unchanged and the format hint is
  sent. A message without text is not asked again: the general error message is sent
  and the conversation state is cleared. The four sample inputs are stored as
  \<open>+79991234567\<close>, the input \<open>123\<close> is rejected, and ten Arabic-Indic digits are
  accepted like ten ASCII digits.
\<close>

theorem process_phone_validation:
  assumes "tg E AnswerBadPhone = None" and "tg E AnswerAskAddress = None"
    and "tg E ReplyPhoneError = None"
  shows "process_phone E (Some t) w =
     (let digits = filter isdecimal t in
      if length digits = 10 \<or>
         (length digits = 11 \<and> (hd digits = of_char CHR ''7'' \<or> hd digits = of_char CHR ''8''))
      then (None, w\<lparr>w_fsm := (w_fsm w)\<lparr>fsm_state := Some waiting_for_address,
                       fsm_data := (fsm_data (w_fsm w))(''phone'' \<mapsto> Some
                          (if hd digits = of_char CHR ''8'' then py ''+7'' @ tl digits
                           else if hd digits = of_char CHR ''7'' then py ''+'' @ digits
                           else py ''+7'' @ digits))\<rparr>,
                 w_outbox := w_outbox w @ [Answer AskAddressMsg]\<rparr>)
      else (None, w\<lparr>w_outbox := w_outbox w @ [Answer BadPhoneMsg]\<rparr>))
   \<and> process_phone E None w =
       (None, w\<lparr>w_outbox := w_outbox w @ [Answer ErrorMsg],
                w_fsm := \<lparr>fsm_state = None, fsm_data = Map.empty\<rparr>\<rparr>)
   \<and> (\<forall>t \<in> set [py ''89991234567'', py ''+79991234567'', py ''9991234567'', py ''8(999)123-45-67''].
        fsm_state (w_fsm (snd (process_phone E (Some t) w))) = Some waiting_for_address \<and>
        fsm_data (w_fsm (snd (process_phone E (Some t) w))) ''phone'' =
          Some (Some (py ''+79991234567'')))
   \<and> process_phone E (Some (py ''123'')) w = (None, w\<lparr>w_outbox := w_outbox w @ [Answer BadPhoneMsg]\<rparr>)
   \<and> fsm_data (w_fsm (snd (process_phone E
         (Some [1641, 1641, 1641, 45, 1633, 1634, 1635, 45, 1636, 1637, 45, 1638, 1639]) w))) ''phone'' =
       Some (Some (py ''+7'' @ [1641, 1641, 1641, 1633, 1634, 1635, 1636, 1637, 1638, 1639]))"
proof (intro conjI)
  show "process_phone E (Some t) w =
     (let digits = filter isdecimal t in
      if length digits = 10 \<or>
         (length digits = 11 \<and> (hd digits = of_char CHR ''7'' \<or> hd digits = of_char CHR ''8''))
      then (None, w\<lparr>w_fsm := (w_fsm w)\<lparr>fsm_state := Some waiting_for_address,
                       fsm_data := (fsm_data (w_fsm w))(''phone'' \<mapsto> Some
                          (if hd digits = of_char CHR ''8'' then py ''+7'' @ tl digits
                           else if hd digits = of_char CHR ''7'' then py ''+'' @ digits
                           else py ''+7'' @ digits))\<rparr>,
                 w_outbox := w_outbox w @ [Answer AskAddressMsg]\<rparr>)
      else (None, w\<lparr>w_outbox := w_outbox w @ [Answer BadPhoneMsg]\<rparr>))"
  proof (cases "length (filter isdecimal t) = 10 \<or>
         (length (filter isdecimal t) = 11 \<and>
          (hd (filter isdecimal t) = 55 \<or> hd (filter isdecimal t) = 56))")
    case True
    show ?thesis
      unfolding Let_def process_phone_accept [OF assms(2) True] using True
      by (simp add: py_def)
  next
    case False
    show ?thesis
      unfolding Let_def process_phone_reject [OF assms(1) False] using False
      by (auto simp add: py_def)
  qed
next
  show "process_phone E None w =
       (None, w\<lparr>w_outbox := w_outbox w @ [Answer ErrorMsg],
                w_fsm := \<lparr>fsm_state = None, fsm_data = Map.empty\<rparr>\<rparr>)"
    by (rule process_phone_no_text_gen [OF assms(3)])
next
  have a1: "fsm_state (w_fsm (snd (process_phone E (Some (py ''89991234567'')) w))) = Some waiting_for_address \<and>
        fsm_data (w_fsm (snd (process_phone E (Some (py ''89991234567'')) w))) ''phone'' =
          Some (Some (py ''+79991234567''))"
    using phone_of_accepted [OF assms(2) e1, of w] by (simp add: py_def)
  have a2: "fsm_state (w_fsm (snd (process_phone E (Some (py ''+79991234567'')) w))) = Some waiting_for_address \<and>
        fsm_data (w_fsm (snd (process_phone E (Some (py ''+79991234567'')) w))) ''phone'' =
          Some (Some (py ''+79991234567''))"
    using phone_of_accepted [OF assms(2) e2, of w] by (simp add: py_def)
  have a3: "fsm_state (w_fsm (snd (process_phone E (Some (py ''9991234567'')) w))) = Some waiting_for_address \<and>
        fsm_data (w_fsm (snd (process_phone E (Some (py ''9991234567'')) w))) ''phone'' =
          Some (Some (py ''+79991234567''))"
    using phone_of_accepted [OF assms(2) e3, of w] by (simp add: py_def)
  have a4: "fsm_state (w_fsm (snd (process_phone E (Some (py ''8(999)123-45-67'')) w))) = Some waiting_for_address \<and>
        fsm_data (w_fsm (snd (process_phone E (Some (py ''8(999)123-45-67'')) w))) ''phone'' =
          Some (Some (py ''+79991234567''))"
    using phone_of_accepted [OF assms(2) e4, of w] by (simp add: py_def)
  show "\<forall>t \<in> set [py ''89991234567'', py ''+79991234567'', py ''9991234567'', py ''8(999)123-45-67''].
        fsm_state (w_fsm (snd (process_phone E (Some t) w))) = Some waiting_for_address \<and>
        fsm_data (w_fsm (snd (process_phone E (Some t) w))) ''phone'' =
          Some (Some (py ''+79991234567''))"
    using a1 a2 a3 a4 by (simp only: list.set ball_simps insert_iff empty_iff)
next
  have "\<not> (length (filter isdecimal (py ''123'')) = 10 \<or>
         (length (filter isdecimal (py ''123'')) = 11 \<and>
          (hd (filter isdecimal (py ''123'')) = 55 \<or> hd (filter isdecimal (py ''123'')) = 56)))"
    unfolding e5 by (simp add: py_def)
  from process_phone_reject [OF assms(1) this]
  show "process_phone E (Some (py ''123'')) w = (None, w\<lparr>w_outbox := w_outbox w @ [Answer BadPhoneMsg]\<rparr>)" .
next
  show "fsm_data (w_fsm (snd (process_phone E
         (Some [1641, 1641, 1641, 45, 1633, 1634, 1635, 45, 1636, 1637, 45, 1638, 1639]) w))) ''phone'' =
       Some (Some (py ''+7'' @ [1641, 1641, 1641, 1633, 1634, 1635, 1636, 1637, 1638, 1639]))"
    using phone_of_accepted [OF assms(2) arabic_indic_digits, of w] by (simp add: py_def)
qed

theorem process_phone_validation_witness:
  "process_phone shop_env (Some (py ''8 (999) 123-45-67'')) phone_world =
     (None, phone_world\<lparr>w_fsm := \<lparr>fsm_state = Some waiting_for_address,
                                  fsm_data = [''name'' \<mapsto> Some (py ''Ivan''),
                                              ''phone'' \<mapsto> Some (py ''+79991234567'')]\<rparr>,
                        w_outbox := [Answer AskAddressMsg]\<rparr>)
   \<and> process_phone shop_env (Some (py ''916 111-22-33'')) phone_world =
     (None, phone_world\<lparr>w_fsm := \<lparr>fsm_state = Some waiting_for_address,
                                  fsm_data = [''name'' \<mapsto> Some (py ''Ivan''),
                                              ''phone'' \<mapsto> Some (py ''+79161112233'')]\<rparr>,
                        w_outbox := [Answer AskAddressMsg]\<rparr>)
   \<and> process_phone shop_env (Some (py ''123'')) phone_world =
       (None, phone_world\<lparr>w_outbox := [Answer BadPhoneMsg]\<rparr>)
   \<and> fsm_state (w_fsm phone_world) = Some waiting_for_phone"
proof -
  have t: "tg shop_env AnswerBadPhone = None" "tg shop_env AnswerAskAddress = None"
    "tg shop_env ReplyPhoneError = None"
    by (simp_all add: shop_env_def)
  have "process_phone shop_env (Some (py ''8 (999) 123-45-67'')) phone_world =
     (None, phone_world\<lparr>w_fsm := \<lparr>fsm_state = Some waiting_for_address,
                                  fsm_data = [''name'' \<mapsto> Some (py ''Ivan''),
                                              ''phone'' \<mapsto> Some (py ''+79991234567'')]\<rparr>,
                        w_outbox := [Answer AskAddressMsg]\<rparr>)"
    using process_phone_validation [OF t, of "py ''8 (999) 123-45-67''" phone_world,
        THEN conjunct1, unfolded e6 Let_def]
    by (simp add: py_def phone_world_def shop_world_def)
  moreover have "process_phone shop_env (Some (py ''916 111-22-33'')) phone_world =
     (None, phone_world\<lparr>w_fsm := \<lparr>fsm_state = Some waiting_for_address,
                                  fsm_data = [''name'' \<mapsto> Some (py ''Ivan''),
                                              ''phone'' \<mapsto> Some (py ''+79161112233'')]\<rparr>,
                        w_outbox := [Answer AskAddressMsg]\<rparr>)"
    using process_phone_validation [OF t, of "py ''916 111-22-33''" phone_world,
        THEN conjunct1, unfolded e7 Let_def]
    by (simp add: py_def phone_world_def shop_world_def)
  moreover have "process_phone shop_env (Some (py ''123'')) phone_world =
       (None, phone_world\<lparr>w_outbox := [Answer BadPhoneMsg]\<rparr>)"
    using process_phone_validation [OF t, of "py ''123''" phone_world,
        THEN conjunct1, unfolded e5 Let_def]
    by (simp add: py_def phone_world_def shop_world_def)
  moreover have "fsm_state (w_fsm phone_world) = Some waiting_for_phone"
    by (simp add: phone_world_def)
  ultimately show ?thesis by blast
qed

text \<open>
  A photo sent at the phone step: the customer is not asked again for the phone, the
  checkout is over. The stage and the name are gone and the reply is the general
  error message, not the format hint.
\<close>

theorem process_phone_without_text:
  "fst (process_phone shop_env None phone_world) = None
   \<and> fsm_state (w_fsm (snd (process_phone shop_env None phone_world))) = None
   \<and> fsm_data (w_fsm (snd (process_phone shop_env None phone_world))) ''name'' = None
   \<and> w_outbox (snd (process_phone shop_env None phone_world)) = [Answer ErrorMsg]
   \<and> fsm_state (w_fsm phone_world) = Some waiting_for_phone
   \<and> fsm_data (w_fsm phone_world) ''name'' = Some (Some (py ''Ivan''))"
  by (simp add: process_phone_def process_phone_try_def raise_def bnd_def tg_call_def
      state_clear_def fsm_clear_def shop_env_def phone_world_def shop_world_def)

text \<open>
  C9. A text whose decimal digits are exactly ten and start with 7 or 8 is accepted (the
  bot's reply being delivered), and the stored phone is \<open>+7\<close> and the other nine digits
  for a leading 8, or \<open>+\<close> and the ten digits for a leading 7: eleven characters. Every
  other accepted text is stored as \<open>+7\<close> and ten decimal digits: twelve characters.
\<close>

theorem process_phone_ten_digits_with_prefix:
  assumes "tg E AnswerAskAddress = None"
  shows "(length (filter isdecimal t) = 10 \<and>
          (hd (filter isdecimal t) = of_char CHR ''7'' \<or> hd (filter isdecimal t) = of_char CHR ''8'') \<longrightarrow>
            fsm_state (w_fsm (snd (process_phone E (Some t) w))) = Some waiting_for_address \<and>
            fsm_data (w_fsm (snd (process_phone E (Some t) w))) ''phone'' =
              Some (Some (if hd (filter isdecimal t) = of_char CHR ''8''
                          then py ''+7'' @ tl (filter isdecimal t)
                          else py ''+'' @ filter isdecimal t)) \<and>
            length (if hd (filter isdecimal t) = of_char CHR ''8''
                    then py ''+7'' @ tl (filter isdecimal t)
                    else py ''+'' @ filter isdecimal t) = 11)
       \<and> ((length (filter isdecimal t) = 10 \<and>
            hd (filter isdecimal t) \<noteq> of_char CHR ''7'' \<and> hd (filter isdecimal t) \<noteq> of_char CHR ''8'') \<or>
           (length (filter isdecimal t) = 11 \<and>
            (hd (filter isdecimal t) = of_char CHR ''7'' \<or> hd (filter isdecimal t) = of_char CHR ''8'')) \<longrightarrow>
            fsm_state (w_fsm (snd (process_phone E (Some t) w))) = Some waiting_for_address \<and>
            (\<exists>s. length s = 10 \<and> list_all isdecimal s \<and>
                 fsm_data (w_fsm (snd (process_phone E (Some t) w))) ''phone'' =
                   Some (Some (py ''+7'' @ s))))"
proof (intro conjI impI)
  assume a: "length (filter isdecimal t) = 10 \<and>
          (hd (filter isdecimal t) = of_char CHR ''7'' \<or> hd (filter isdecimal t) = of_char CHR ''8'')"
  then have ok: "length (filter isdecimal t) = 10 \<or>
         (length (filter isdecimal t) = 11 \<and>
          (hd (filter isdecimal t) = 55 \<or> hd (filter isdecimal t) = 56))" by blast
  note p = phone_of_accepted [OF assms refl ok, of w]
  show "fsm_state (w_fsm (snd (process_phone E (Some t) w))) = Some waiting_for_address"
    using p by blast
  show "fsm_data (w_fsm (snd (process_phone E (Some t) w))) ''phone'' =
              Some (Some (if hd (filter isdecimal t) = of_char CHR ''8''
                          then py ''+7'' @ tl (filter isdecimal t)
                          else py ''+'' @ filter isdecimal t))"
    using p a by (auto simp add: py_def)
  show "length (if hd (filter isdecimal t) = of_char CHR ''8''
                    then py ''+7'' @ tl (filter isdecimal t)
                    else py ''+'' @ filter isdecimal t) = 11"
    using a by (simp add: py_def)
next
  assume b: "(length (filter isdecimal t) = 10 \<and>
            hd (filter isdecimal t) \<noteq> of_char CHR ''7'' \<and> hd (filter isdecimal t) \<noteq> of_char CHR ''8'') \<or>
           (length (filter isdecimal t) = 11 \<and>
            (hd (filter isdecimal t) = of_char CHR ''7'' \<or> hd (filter isdecimal t) = of_char CHR ''8''))"
  then have ok: "length (filter isdecimal t) = 10 \<or>
         (length (filter isdecimal t) = 11 \<and>
          (hd (filter isdecimal t) = 55 \<or> hd (filter isdecimal t) = 56))" by auto
  note p = phone_of_accepted [OF assms refl ok, of w]
  show "fsm_state (w_fsm (snd (process_phone E (Some t) w))) = Some waiting_for_address"
    using p by blast
  have dg: "list_all isdecimal (filter isdecimal t)"
    by (simp add: list_all_iff)
  from b have "\<exists>s. length s = 10 \<and> list_all isdecimal s \<and>
       (if hd (filter isdecimal t) = 56 then [43, 55] @ tl (filter isdecimal t)
        else if hd (filter isdecimal t) = 55 then [43] @ filter isdecimal t
        else [43, 55] @ filter isdecimal t) = py ''+7'' @ s"
  proof
    assume c: "length (filter isdecimal t) = 10 \<and>
            hd (filter isdecimal t) \<noteq> of_char CHR ''7'' \<and> hd (filter isdecimal t) \<noteq> of_char CHR ''8''"
    then have "(if hd (filter isdecimal t) = 56 then [43, 55] @ tl (filter isdecimal t)
        else if hd (filter isdecimal t) = 55 then [43] @ filter isdecimal t
        else [43, 55] @ filter isdecimal t) = py ''+7'' @ filter isdecimal t"
      by (simp add: py_def)
    with c dg show ?thesis by blast
  next
    assume c: "length (filter isdecimal t) = 11 \<and>
            (hd (filter isdecimal t) = of_char CHR ''7'' \<or> hd (filter isdecimal t) = of_char CHR ''8'')"
    then have ne: "filter isdecimal t \<noteq> []" by auto
    have "(if hd (filter isdecimal t) = 56 then [43, 55] @ tl (filter isdecimal t)
        else if hd (filter isdecimal t) = 55 then [43] @ filter isdecimal t
        else [43, 55] @ filter isdecimal t) = py ''+7'' @ tl (filter isdecimal t)"
      using c ne by (cases "filter isdecimal t") (auto simp add: py_def)
    moreover have "length (tl (filter isdecimal t)) = 10" using c by simp
    moreover have "list_all isdecimal (tl (filter isdecimal t))"
      using list_all_drop [OF dg, of 1] by (simp add: drop_Suc)
    ultimately show ?thesis by blast
  qed
  then show "\<exists>s. length s = 10 \<and> list_all isdecimal s \<and>
                 fsm_data (w_fsm (snd (process_phone E (Some t) w))) ''phone'' =
                   Some (Some (py ''+7'' @ s))"
    using p by auto
qed

theorem process_phone_ten_digits_with_prefix_witness:
  "fsm_data (w_fsm (snd (process_phone shop_env (Some (py ''8123456789'')) phone_world))) ''phone'' =
     Some (Some (py ''+7123456789''))
   \<and> fsm_data (w_fsm (snd (process_phone shop_env (Some (py ''7123456789'')) phone_world))) ''phone'' =
     Some (Some (py ''+7123456789''))
   \<and> fsm_state (w_fsm (snd (process_phone shop_env (Some (py ''8123456789'')) phone_world))) =
     Some waiting_for_address
   \<and> fsm_state (w_fsm phone_world) = Some waiting_for_phone
   \<and> fsm_data (w_fsm phone_world) ''phone'' = None
   \<and> (\<exists>s. length s = 10 \<and> list_all isdecimal s \<and>
        fsm_data (w_fsm (snd (process_phone shop_env (Some (py ''916 111-22-33'')) phone_world))) ''phone'' =
          Some (Some (py ''+7'' @ s)))"
proof -
  have t: "tg shop_env AnswerAskAddress = None"
    by (simp add: shop_env_def)
  have "fsm_data (w_fsm (snd (process_phone shop_env (Some (py ''8123456789'')) phone_world))) ''phone'' =
     Some (Some (py ''+7123456789''))
     \<and> fsm_state (w_fsm (snd (process_phone shop_env (Some (py ''8123456789'')) phone_world))) =
     Some waiting_for_address"
    using process_phone_ten_digits_with_prefix [OF t, of "py ''8123456789''" phone_world, unfolded e8]
    by (simp add: py_def)
  moreover have "fsm_data (w_fsm (snd (process_phone shop_env (Some (py ''7123456789'')) phone_world))) ''phone'' =
     Some (Some (py ''+7123456789''))"
    using process_phone_ten_digits_with_prefix [OF t, of "py ''7123456789''" phone_world, unfolded e9]
    by (simp add: py_def)
  moreover have "fsm_state (w_fsm phone_world) = Some waiting_for_phone"
    "fsm_data (w_fsm phone_world) ''phone'' = None"
    by (simp_all add: phone_world_def)
  moreover have "\<exists>s. length s = 10 \<and> list_all isdecimal s \<and>
        fsm_data (w_fsm (snd (process_phone shop_env (Some (py ''916 111-22-33'')) phone_world))) ''phone'' =
          Some (Some (py ''+7'' @ s))"
    using process_phone_ten_digits_with_prefix [OF t, of "py ''916 111-22-33''" phone_world, unfolded e7]
    by (simp add: py_def)
  ultimately show ?thesis by blast
qed

section \<open>Properties of the decimal numbers\<close>

lemma round_half_even_of_int: "round_half_even (of_int n) = n"
  by (simp add: round_half_even_def)

lemma quantize_2_two_places: "two_places v \<Longrightarrow> quantize_2 v = v"
proof -
  assume "two_places v"
  then have e: "v * 100 = of_int \<lfloor>v * 100\<rfloor>"
    by (simp add: two_places_def)
  have "round_half_even (v * 100) = \<lfloor>v * 100\<rfloor>"
    by (subst e) (rule round_half_even_of_int)
  then have "quantize_2 v = of_int \<lfloor>v * 100\<rfloor> / 100"
    by (simp add: quantize_2_def)
  also have "\<dots> = v"
    using e by simp
  finally show ?thesis .
qed

lemma fits_10_2_two_places: "two_places v \<Longrightarrow> fits_10_2 v \<longleftrightarrow> \<bar>v\<bar> < 10 ^ 8"
proof -
  assume "two_places v"
  then have e: "v * 100 = of_int \<lfloor>v * 100\<rfloor>"
    by (simp add: two_places_def)
  have r: "round_half_even (v * 100) = \<lfloor>v * 100\<rfloor>"
    by (subst e) (rule round_half_even_of_int)
  have "\<bar>\<lfloor>v * 100\<rfloor>\<bar> < 10 ^ 10 \<longleftrightarrow> \<bar>(of_int \<lfloor>v * 100\<rfloor> :: rat)\<bar> < 10 ^ 10"
    by (metis of_int_abs of_int_less_iff of_int_numeral of_int_power)
  also have "\<dots> \<longleftrightarrow> \<bar>v * 100\<bar> < 10 ^ 10"
    using e by simp
  also have "\<dots> \<longleftrightarrow> \<bar>v\<bar> < 10 ^ 8"
    by (simp add: abs_mult)
  finally show ?thesis
    by (simp add: fits_10_2_def r)
qed

lemma two_places_iff: "two_places x \<longleftrightarrow> (\<exists>k. x = of_int k / 100)"
proof
  assume "two_places x"
  then have "x = of_int \<lfloor>x * 100\<rfloor> / 100"
    by (simp add: two_places_def)
  then show "\<exists>k. x = of_int k / 100" ..
next
  assume "\<exists>k. x = of_int k / 100"
  then obtain k where "x = of_int k / 100" ..
  then show "two_places x"
    by (simp add: two_places_def)
qed

lemma two_places_zero: "two_places 0"
  by (simp add: two_places_def)

lemma two_places_add: "two_places a \<Longrightarrow> two_places b \<Longrightarrow> two_places (a + b)"
proof -
  assume "two_places a" "two_places b"
  then obtain k l where "a = of_int k / 100" "b = of_int l / 100"
    unfolding two_places_iff by blast
  then have "a + b = of_int (k + l) / 100"
    by (simp add: add_divide_distrib)
  then show ?thesis
    unfolding two_places_iff by blast
qed

lemma two_places_times: "two_places a \<Longrightarrow> two_places (a * of_int n)"
proof -
  assume "two_places a"
  then obtain k where "a = of_int k / 100"
    unfolding two_places_iff by blast
  then have "a * of_int n = of_int (k * n) / 100"
    by simp
  then show ?thesis
    unfolding two_places_iff by blast
qed

lemma py_int_of_int: "py_int (of_int k) = k"
  by (simp add: py_int_def)

lemma dec_ctx_small: "\<bar>v\<bar> < 10 ^ 26 \<Longrightarrow> dec_ctx v = v"
  by (simp add: dec_ctx_def)

lemma round_half_even_ge_floor: "\<lfloor>x\<rfloor> \<le> round_half_even x"
  by (simp add: round_half_even_def Let_def)

text \<open>Rounding to 28 digits does not make a large number small.\<close>

lemma dec_ctx_large:
  assumes "10 ^ 26 \<le> v"
  shows "10 ^ 26 \<le> dec_ctx v"
proof -
  define n where "n = nat \<lfloor>\<bar>v\<bar>\<rfloor>"
  have v0: "0 \<le> v" and av: "\<bar>v\<bar> = v"
    using assms by (simp_all add: order_trans [of 0 "10 ^ 26" v])
  have fl: "(10 ^ 26 :: int) \<le> \<lfloor>v\<rfloor>"
    using assms by (simp add: le_floor_iff)
  then have n26: "10 ^ 26 \<le> n"
    unfolding n_def av by (simp add: le_nat_iff)
  then have npos: "0 < n"
    by (simp add: order.strict_trans2 [of 0 "10 ^ 26" n])
  from floorlog_bounds [OF npos, of 10]
  have lo: "10 ^ (floorlog 10 n - 1) \<le> n" and hi: "n < 10 ^ floorlog 10 n"
    by simp_all
  have "(10::nat) ^ 26 < 10 ^ floorlog 10 n"
    using n26 hi by (rule order.strict_trans1)
  then have "26 < floorlog 10 n"
    by (rule power_less_imp_less_exp [of 10, rotated]) simp
  moreover define k where "k = floorlog 10 n - 27"
  ultimately have d: "floorlog 10 n = k + 27"
    by simp
  have lo': "10 ^ (k + 26) \<le> n"
    using lo unfolding d by (simp add: add.commute)
  have nv: "of_nat n \<le> v"
    unfolding n_def av using v0 by (simp add: of_nat_nat)
  have "(10::rat) ^ (k + 26) = of_nat (10 ^ (k + 26))"
    by simp
  also have "\<dots> \<le> of_nat n"
    using lo' by (rule of_nat_mono)
  finally have vlow: "(10::rat) ^ (k + 26) \<le> v"
    using nv by (rule order_trans)
  define unit :: rat where "unit = 10 ^ (k + 1) / 100"
  have upos: "0 < unit"
    by (simp add: unit_def)
  have u27: "unit * 10 ^ 27 = 10 ^ (k + 26)"
    by (simp add: unit_def power_add)
  have "(10::rat) ^ 27 \<le> v / unit"
    using vlow upos u27 by (simp add: pos_le_divide_eq mult.commute)
  then have "(10 ^ 27 :: int) \<le> \<lfloor>v / unit\<rfloor>"
    by (simp add: le_floor_iff)
  then have "(10 ^ 27 :: int) \<le> round_half_even (v / unit)"
    using round_half_even_ge_floor [of "v / unit"] by (rule order_trans)
  then have "(10::rat) ^ 27 \<le> of_int (round_half_even (v / unit))"
    by (metis of_int_le_iff of_int_numeral of_int_power)
  then have "10 ^ 27 * unit \<le> of_int (round_half_even (v / unit)) * unit"
    using upos by (simp add: mult_le_cancel_right)
  then have "10 ^ (k + 26) \<le> of_int (round_half_even (v / unit)) * unit"
    using u27 by (simp add: mult.commute)
  moreover have "(10::rat) ^ 26 \<le> 10 ^ (k + 26)"
    by (rule power_increasing) simp_all
  ultimately have "10 ^ 26 \<le> of_int (round_half_even (v / unit)) * unit"
    by (rule order_trans [rotated])
  moreover have "dec_ctx v = of_int (round_half_even (v / unit)) * unit"
  proof -
    have nlt: "\<not> \<bar>v\<bar> < 10 ^ 26"
      using assms unfolding av by (simp only: not_less)
    have e: "floorlog 10 (nat \<lfloor>\<bar>v\<bar>\<rfloor>) - 26 = k + 1"
      using d unfolding n_def by simp
    show ?thesis
      unfolding dec_ctx_def Let_def e unit_def using nlt by (simp only: if_False)
  qed
  ultimately show ?thesis
    by simp
qed

lemma dec_ctx_exact_or_large:
  assumes "0 \<le> v"
  shows "dec_ctx v = v \<or> 10 ^ 26 \<le> dec_ctx v"
proof (cases "v < 10 ^ 26")
  case True
  with assms have "\<bar>v\<bar> < 10 ^ 26" by simp
  then show ?thesis by (simp add: dec_ctx_small)
next
  case False
  then have "10 ^ 26 \<le> v" by simp
  then have "10 ^ 26 \<le> dec_ctx v" by (rule dec_ctx_large)
  then show ?thesis ..
qed

lemma dec_ctx_nonneg: "0 \<le> v \<Longrightarrow> 0 \<le> dec_ctx v"
  using dec_ctx_exact_or_large [of v] by (auto intro: order_trans [of 0 "10 ^ 26"])

section \<open>Properties of the order repository\<close>

lemma find_save_order:
  assumes "find (\<lambda>x. order_pk x = oid) rows = Some r" and "order_pk r' = oid"
  shows "find (\<lambda>x. order_pk x = oid) (save_order r' rows) = Some r'"
  using assms by (induction rows) (auto simp: save_order_def)

text \<open>
  C7. \<^verbatim>\<open>update_order_payment_info\<close>: for an order id that is not in the table it prints
  a line and returns \<open>False\<close>, leaving the database as it was; it always returns a truth
  value, never an exception; for an existing order, when the database accepts the
  update, it returns \<open>True\<close> and the order then carries the payment id, the payment
  link and the payment status.
\<close>

theorem update_order_payment_info_result:
  "(find (\<lambda>x. order_pk x = oid) (Order_objects d) = None \<longrightarrow>
      update_order_payment_info sr oid payment_id payment_url payment_status d =
        (Inr False, [OrderNotFound oid], d))
   \<and> (\<exists>b out d'. update_order_payment_info sr oid payment_id payment_url payment_status d =
        (Inr b, out, d'))
   \<and> (\<forall>r. find (\<lambda>x. order_pk x = oid) (Order_objects d) = Some r \<and> sr = None \<longrightarrow>
        (\<exists>d'. update_order_payment_info sr oid payment_id payment_url payment_status d =
                 (Inr True, [], d') \<and>
              find (\<lambda>x. order_pk x = oid) (Order_objects d') =
                 Some (r\<lparr>order_payment_id := Some payment_id, order_payment_url := payment_url,
                        order_payment_status := payment_status\<rparr>)))"
proof (intro conjI allI impI)
  assume "find (\<lambda>x. order_pk x = oid) (Order_objects d) = None"
  then show "update_order_payment_info sr oid payment_id payment_url payment_status d =
        (Inr False, [OrderNotFound oid], d)"
    by (simp add: update_order_payment_info_def update_order_payment_info_try_def)
next
  show "\<exists>b out d'. update_order_payment_info sr oid payment_id payment_url payment_status d =
        (Inr b, out, d')"
    by (auto simp add: update_order_payment_info_def update_order_payment_info_try_def Let_def
        split: option.splits exc.splits)
next
  fix r
  assume a: "find (\<lambda>x. order_pk x = oid) (Order_objects d) = Some r \<and> sr = None"
  then have pk: "order_pk r = oid"
    by (auto simp: find_Some_iff)
  show "\<exists>d'. update_order_payment_info sr oid payment_id payment_url payment_status d =
                 (Inr True, [], d') \<and>
              find (\<lambda>x. order_pk x = oid) (Order_objects d') =
                 Some (r\<lparr>order_payment_id := Some payment_id, order_payment_url := payment_url,
                        order_payment_status := payment_status\<rparr>)"
    using a pk
    by (simp add: update_order_payment_info_def update_order_payment_info_try_def Let_def
        find_save_order)
qed

theorem update_order_payment_info_result_witness:
  "update_order_payment_info None 5 ''order_5_01234567'' (Some ''https://pay.example/1'') ''pending''
     placed_db = (Inr False, [OrderNotFound 5], placed_db)
   \<and> (\<exists>d'. update_order_payment_info None 1 ''order_1_01234567'' (Some ''https://pay.example/1'')
              ''pending'' placed_db = (Inr True, [], d') \<and>
            map_option order_payment_id (find (\<lambda>x. order_pk x = 1) (Order_objects d')) =
              Some (Some ''order_1_01234567''))"
proof -
  have n: "find (\<lambda>x. order_pk x = 5) (Order_objects placed_db) = None"
    by (simp add: placed_db_def shop_order_def)
  have f: "find (\<lambda>x. order_pk x = 1) (Order_objects placed_db) = Some (hd (Order_objects placed_db))"
    by (simp add: placed_db_def shop_order_def)
  have a: "update_order_payment_info None 5 ''order_5_01234567'' (Some ''https://pay.example/1'') ''pending''
     placed_db = (Inr False, [OrderNotFound 5], placed_db)"
    using update_order_payment_info_result
      [of 5 placed_db None "''order_5_01234567''" "Some ''https://pay.example/1''" "''pending''"] n
    by blast
  from update_order_payment_info_result
      [of 1 placed_db None "''order_1_01234567''" "Some ''https://pay.example/1''" "''pending''"] f
  obtain d' where
    r: "update_order_payment_info None 1 ''order_1_01234567'' (Some ''https://pay.example/1'')
              ''pending'' placed_db = (Inr True, [], d')"
    and g: "find (\<lambda>x. order_pk x = 1) (Order_objects d') =
              Some ((hd (Order_objects placed_db))\<lparr>order_payment_id := Some ''order_1_01234567'',
                      order_payment_url := Some ''https://pay.example/1'',
                      order_payment_status := ''pending''\<rparr>)"
    by blast
  from g have "map_option order_payment_id (find (\<lambda>x. order_pk x = 1) (Order_objects d')) =
              Some (Some ''order_1_01234567'')"
    by simp
  with a r show ?thesis by blast
qed

lemma product_exists_find:
  "product_exists pid d \<longleftrightarrow> find (\<lambda>p. product_pk p = pid) (Product_objects d) \<noteq> None"
  by (auto simp: product_exists_def find_None_iff)

lemma product_exists_order_tables [simp]:
  "product_exists pid (d\<lparr>OrderItem_objects := rows\<rparr>) = product_exists pid d"
  "product_exists pid (d\<lparr>Order_objects := os\<rparr>) = product_exists pid d"
  by (simp_all add: product_exists_def)

lemma OrderItem_row_ok_order_tables [simp]:
  "OrderItem_row_ok (d\<lparr>OrderItem_objects := rows\<rparr>) = OrderItem_row_ok d"
  "OrderItem_row_ok (d\<lparr>Order_objects := os\<rparr>) = OrderItem_row_ok d"
  by (simp_all add: OrderItem_row_ok_def fun_eq_iff)

lemma OrderItem_objects_create_ok:
  assumes "write_fails S n = None" and "OrderItem_row_ok d q p"
  shows "OrderItem_objects_create S n oid pid q p d =
           (Inr (), d\<lparr>OrderItem_objects := OrderItem_objects d @
              [\<lparr>order_item_order_id = oid, order_item_product_id = pid,
                order_item_quantity = q, order_item_price = quantize_2 p\<rparr>]\<rparr>)"
  using assms by (simp add: OrderItem_objects_create_def OrderItem_row_ok_def)

lemma OrderItem_objects_create_fails:
  assumes "write_fails S n \<noteq> None \<or> \<not> OrderItem_row_ok d q p"
  shows "\<exists>e. OrderItem_objects_create S n oid pid q p d = (Inl e, d)"
  using assms
  by (cases "write_fails S n") (auto simp add: OrderItem_objects_create_def OrderItem_row_ok_def)

lemma create_order_items_ok:
  assumes "\<forall>item \<in> set items. product_exists (item_product_id item) d \<and>
             OrderItem_row_ok d (item_quantity item) (item_price item)"
    and "\<forall>k < length items. write_fails S (n + k) = None"
  shows "create_order_items S n oid items d =
           (Inr (), d\<lparr>OrderItem_objects := OrderItem_objects d @
              map (\<lambda>i. \<lparr>order_item_order_id = oid, order_item_product_id = item_product_id i,
                         order_item_quantity = item_quantity i,
                         order_item_price = quantize_2 (item_price i)\<rparr>) items\<rparr>)"
  using assms
proof (induction items arbitrary: n d)
  case Nil
  show ?case by simp
next
  case (Cons item items)
  from Cons.prems(1) obtain p where
    p: "find (\<lambda>p. product_pk p = item_product_id item) (Product_objects d) = Some p"
    by (auto simp: product_exists_find)
  then have pk: "product_pk p = item_product_id item"
    by (auto simp: find_Some_iff)
  define row where "row = \<lparr>order_item_order_id = oid, order_item_product_id = item_product_id item,
      order_item_quantity = item_quantity item, order_item_price = quantize_2 (item_price item)\<rparr>"
  define d1 where "d1 = d\<lparr>OrderItem_objects := OrderItem_objects d @ [row]\<rparr>"
  have w0: "write_fails S n = None"
    using Cons.prems(2) by auto
  have ok: "OrderItem_row_ok d (item_quantity item) (item_price item)"
    using Cons.prems(1) by simp
  have c: "OrderItem_objects_create S n oid (product_pk p) (item_quantity item) (item_price item) d =
             (Inr (), d1)"
    unfolding OrderItem_objects_create_ok [OF w0 ok] pk d1_def row_def ..
  have a1: "\<forall>i \<in> set items. product_exists (item_product_id i) d1 \<and>
             OrderItem_row_ok d1 (item_quantity i) (item_price i)"
    using Cons.prems(1) by (simp add: d1_def)
  have a2: "\<forall>k < length items. write_fails S (Suc n + k) = None"
    using Cons.prems(2) by auto
  have "create_order_items S (Suc n) oid items d1 =
          (Inr (), d1\<lparr>OrderItem_objects := OrderItem_objects d1 @
              map (\<lambda>i. \<lparr>order_item_order_id = oid, order_item_product_id = item_product_id i,
                         order_item_quantity = item_quantity i,
                         order_item_price = quantize_2 (item_price i)\<rparr>) items\<rparr>)"
    by (rule Cons.IH [OF a1 a2])
  then show ?case
    using p c by (simp add: d1_def row_def)
qed

lemma create_order_items_fails:
  assumes "(\<exists>item \<in> set items. \<not> (product_exists (item_product_id item) d \<and>
              OrderItem_row_ok d (item_quantity item) (item_price item))) \<or>
           (\<exists>k < length items. write_fails S (n + k) \<noteq> None)"
  shows "\<exists>e d'. create_order_items S n oid items d = (Inl e, d')"
  using assms
proof (induction items arbitrary: n d)
  case Nil
  then show ?case by simp
next
  case (Cons item items)
  show ?case
  proof (cases "find (\<lambda>p. product_pk p = item_product_id item) (Product_objects d)")
    case None
    then show ?thesis by simp
  next
    case (Some p)
    then have ex: "product_exists (item_product_id item) d"
      by (simp add: product_exists_find)
    show ?thesis
    proof (cases "write_fails S n = None \<and> OrderItem_row_ok d (item_quantity item) (item_price item)")
      case False
      then have "write_fails S n \<noteq> None \<or> \<not> OrderItem_row_ok d (item_quantity item) (item_price item)"
        by auto
      from OrderItem_objects_create_fails [OF this]
      obtain e where "OrderItem_objects_create S n oid (product_pk p) (item_quantity item)
                        (item_price item) d = (Inl e, d)"
        by blast
      then show ?thesis
        using Some by simp
    next
      case True
      define d1 where "d1 = d\<lparr>OrderItem_objects := OrderItem_objects d @
              [\<lparr>order_item_order_id = oid, order_item_product_id = product_pk p,
                order_item_quantity = item_quantity item,
                order_item_price = quantize_2 (item_price item)\<rparr>]\<rparr>"
      have c: "OrderItem_objects_create S n oid (product_pk p) (item_quantity item) (item_price item) d =
             (Inr (), d1)"
        using True unfolding d1_def by (simp add: OrderItem_objects_create_ok)
      have "(\<exists>i \<in> set items. \<not> (product_exists (item_product_id i) d1 \<and>
              OrderItem_row_ok d1 (item_quantity i) (item_price i))) \<or>
           (\<exists>k < length items. write_fails S (Suc n + k) \<noteq> None)"
        using Cons.prems
      proof
        assume "\<exists>i \<in> set (item # items). \<not> (product_exists (item_product_id i) d \<and>
              OrderItem_row_ok d (item_quantity i) (item_price i))"
        with ex True show ?thesis
          by (auto simp add: d1_def)
      next
        assume "\<exists>k < length (item # items). write_fails S (n + k) \<noteq> None"
        then obtain k where k: "k < Suc (length items)" "write_fails S (n + k) \<noteq> None"
          by auto
        with True have "k \<noteq> 0"
          by (cases k) auto
        then obtain j where "k = Suc j"
          by (cases k) auto
        with k have "j < length items" "write_fails S (Suc n + j) \<noteq> None"
          by simp_all
        then show ?thesis by blast
      qed
      from Cons.IH [OF this] show ?thesis
        using Some c by simp
    qed
  qed
qed

lemma Order_objects_create_ok:
  assumes "write_fails S 0 = None" and "Order_row_ok d u n p t"
    and "assigned_pk S \<notin> set (map order_pk (Order_objects d))"
  shows "Order_objects_create S u n p a t d =
     (Inr \<lparr>order_pk = assigned_pk S, order_user_id = u, order_name = n, order_phone = p,
           order_address = a, order_total_amount = quantize_2 t,
           order_is_completed = False, order_payment_id = None,
           order_payment_url = None, order_payment_status = ''pending''\<rparr>,
      d\<lparr>Order_objects := Order_objects d @
          [\<lparr>order_pk = assigned_pk S, order_user_id = u, order_name = n, order_phone = p,
            order_address = a, order_total_amount = quantize_2 t,
            order_is_completed = False, order_payment_id = None,
            order_payment_url = None, order_payment_status = ''pending''\<rparr>]\<rparr>)"
  using assms by (simp add: Order_objects_create_def Order_row_ok_def Let_def)

lemma Order_objects_create_fails:
  assumes "write_fails S 0 \<noteq> None \<or> \<not> Order_row_ok d u n p t \<or>
           assigned_pk S \<in> set (map order_pk (Order_objects d))"
  shows "\<exists>e. Order_objects_create S u n p a t d = (Inl e, d)"
  using assms
  by (cases "write_fails S 0") (auto simp add: Order_objects_create_def Order_row_ok_def Let_def)

lemma create_order_rollback:
  "create_order S user_id items n p a t d = (Inl e, d') \<Longrightarrow> d' = d"
  by (auto simp: create_order_def atomic_def split: prod.splits sum.splits)

lemma create_order_Inl:
  "fst (create_order S user_id items n p a t d) = Inl e \<Longrightarrow>
   create_order S user_id items n p a t d = (Inl e, d)"
  using create_order_rollback [of S user_id items n p a t d e]
  by (cases "create_order S user_id items n p a t d") auto

lemma create_order_ok:
  assumes "\<forall>item \<in> set items. product_exists (item_product_id item) d \<and>
             OrderItem_row_ok d (item_quantity item) (item_price item)"
    and "\<forall>k \<le> length items. write_fails S k = None"
    and "Order_row_ok d u n p t"
    and "assigned_pk S \<notin> set (map order_pk (Order_objects d))"
  shows "create_order S u items n p a t d =
     (Inr (assigned_pk S),
      d\<lparr>Order_objects := Order_objects d @
          [\<lparr>order_pk = assigned_pk S, order_user_id = u, order_name = n, order_phone = p,
            order_address = a, order_total_amount = quantize_2 t,
            order_is_completed = False, order_payment_id = None,
            order_payment_url = None, order_payment_status = ''pending''\<rparr>],
        OrderItem_objects := OrderItem_objects d @
          map (\<lambda>i. \<lparr>order_item_order_id = assigned_pk S, order_item_product_id = item_product_id i,
                     order_item_quantity = item_quantity i,
                     order_item_price = quantize_2 (item_price i)\<rparr>) items\<rparr>)"
proof -
  define order where "order = \<lparr>order_pk = assigned_pk S, order_user_id = u, order_name = n,
      order_phone = p, order_address = a, order_total_amount = quantize_2 t,
      order_is_completed = False, order_payment_id = None,
      order_payment_url = None, order_payment_status = ''pending''\<rparr>"
  define d1 where "d1 = d\<lparr>Order_objects := Order_objects d @ [order]\<rparr>"
  have w0: "write_fails S 0 = None"
    using assms(2) by simp
  have o: "Order_objects_create S u n p a t d = (Inr order, d1)"
    unfolding Order_objects_create_ok [OF w0 assms(3,4)] d1_def order_def ..
  have a1: "\<forall>item \<in> set items. product_exists (item_product_id item) d1 \<and>
             OrderItem_row_ok d1 (item_quantity item) (item_price item)"
    using assms(1) by (simp add: d1_def)
  have a2: "\<forall>k < length items. write_fails S (1 + k) = None"
    using assms(2) by simp
  have pk: "order_pk order = assigned_pk S"
    by (simp add: order_def)
  show ?thesis
    unfolding create_order_def atomic_def o
    using create_order_items_ok [OF a1 a2, of "assigned_pk S"]
    by (simp add: pk d1_def order_def)
qed

lemma create_order_fails:
  assumes "(\<exists>item \<in> set items. \<not> (product_exists (item_product_id item) d \<and>
              OrderItem_row_ok d (item_quantity item) (item_price item))) \<or>
           (\<exists>k \<le> length items. write_fails S k \<noteq> None) \<or>
           \<not> Order_row_ok d u n p t \<or>
           assigned_pk S \<in> set (map order_pk (Order_objects d))"
  shows "\<exists>e. create_order S u items n p a t d = (Inl e, d)"
proof (cases "write_fails S 0 \<noteq> None \<or> \<not> Order_row_ok d u n p t \<or>
           assigned_pk S \<in> set (map order_pk (Order_objects d))")
  case True
  from Order_objects_create_fails [OF this] obtain e where
    "Order_objects_create S u n p a t d = (Inl e, d)"
    by blast
  then show ?thesis
    by (simp add: create_order_def atomic_def)
next
  case False
  then have w0: "write_fails S 0 = None" and ok: "Order_row_ok d u n p t"
    and fresh: "assigned_pk S \<notin> set (map order_pk (Order_objects d))"
    by auto
  define order where "order = \<lparr>order_pk = assigned_pk S, order_user_id = u, order_name = n,
      order_phone = p, order_address = a, order_total_amount = quantize_2 t,
      order_is_completed = False, order_payment_id = None,
      order_payment_url = None, order_payment_status = ''pending''\<rparr>"
  define d1 where "d1 = d\<lparr>Order_objects := Order_objects d @ [order]\<rparr>"
  have o: "Order_objects_create S u n p a t d = (Inr order, d1)"
    unfolding Order_objects_create_ok [OF w0 ok fresh] d1_def order_def ..
  have "(\<exists>item \<in> set items. \<not> (product_exists (item_product_id item) d1 \<and>
              OrderItem_row_ok d1 (item_quantity item) (item_price item))) \<or>
           (\<exists>k < length items. write_fails S (1 + k) \<noteq> None)"
    using assms
  proof (elim disjE)
    assume "\<exists>item \<in> set items. \<not> (product_exists (item_product_id item) d \<and>
              OrderItem_row_ok d (item_quantity item) (item_price item))"
    then show ?thesis by (simp add: d1_def)
  next
    assume "\<exists>k \<le> length items. write_fails S k \<noteq> None"
    then obtain k where k: "k \<le> length items" "write_fails S k \<noteq> None"
      by blast
    with w0 have "k \<noteq> 0"
      by (cases k) auto
    then obtain j where "k = Suc j"
      by (cases k) auto
    with k have "j < length items" "write_fails S (1 + j) \<noteq> None"
      by simp_all
    then show ?thesis by blast
  next
    assume "\<not> Order_row_ok d u n p t"
    with ok show ?thesis by blast
  next
    assume "assigned_pk S \<in> set (map order_pk (Order_objects d))"
    with fresh show ?thesis by blast
  qed
  from create_order_items_fails [OF this, of "order_pk order"] obtain e d2 where
    "create_order_items S 1 (order_pk order) items d1 = (Inl e, d2)"
    by auto
  then show ?thesis
    by (simp add: create_order_def atomic_def o)
qed

text \<open>
  C1. \<^verbatim>\<open>create_order\<close> is atomic. Whenever the call raises, the database is what it was
  before the call: no order row and no order line of the attempt remains. It raises when
  the product of some line item does not exist; it also raises when the database
  refuses a row (a negative quantity, a value that does not fit its column, a key
  that is taken) or a write fails. If the products of all line items exist and the
  database accepts the rows, the call returns the key that the database has given to
  the new order, a key that no other order has, and the database has gained the order
  row and one order line per item, with the item's product, quantity and price, the
  amounts rounded to the two decimal places of their columns (which leaves an amount
  with two decimal places as it is).
\<close>

theorem create_order_atomic:
  "(\<forall>e d'. create_order S user_id items name phone address total_amount d = (Inl e, d') \<longrightarrow> d' = d)
   \<and> ((\<exists>item \<in> set items. \<not> product_exists (item_product_id item) d) \<longrightarrow>
        (\<exists>e. create_order S user_id items name phone address total_amount d = (Inl e, d)))
   \<and> ((\<exists>item \<in> set items. \<not> OrderItem_row_ok d (item_quantity item) (item_price item)) \<or>
       (\<exists>k \<le> length items. write_fails S k \<noteq> None) \<or>
       \<not> Order_row_ok d user_id name phone total_amount \<or>
       assigned_pk S \<in> set (map order_pk (Order_objects d)) \<longrightarrow>
        (\<exists>e. create_order S user_id items name phone address total_amount d = (Inl e, d)))
   \<and> ((\<forall>item \<in> set items. product_exists (item_product_id item) d \<and>
          OrderItem_row_ok d (item_quantity item) (item_price item)) \<and>
       (\<forall>k \<le> length items. write_fails S k = None) \<and>
       Order_row_ok d user_id name phone total_amount \<and>
       assigned_pk S \<notin> set (map order_pk (Order_objects d)) \<longrightarrow>
        create_order S user_id items name phone address total_amount d =
          (Inr (assigned_pk S),
           d\<lparr>Order_objects := Order_objects d @
                [\<lparr>order_pk = assigned_pk S, order_user_id = user_id, order_name = name,
                  order_phone = phone, order_address = address,
                  order_total_amount = quantize_2 total_amount,
                  order_is_completed = False, order_payment_id = None,
                  order_payment_url = None, order_payment_status = ''pending''\<rparr>],
             OrderItem_objects := OrderItem_objects d @
                map (\<lambda>i. \<lparr>order_item_order_id = assigned_pk S,
                           order_item_product_id = item_product_id i,
                           order_item_quantity = item_quantity i,
                           order_item_price = quantize_2 (item_price i)\<rparr>) items\<rparr>))
   \<and> (two_places total_amount \<longrightarrow> quantize_2 total_amount = total_amount)"
proof (intro conjI allI impI)
  fix e d'
  assume "create_order S user_id items name phone address total_amount d = (Inl e, d')"
  then show "d' = d" by (rule create_order_rollback)
next
  assume "\<exists>item \<in> set items. \<not> product_exists (item_product_id item) d"
  then have "(\<exists>item \<in> set items. \<not> (product_exists (item_product_id item) d \<and>
              OrderItem_row_ok d (item_quantity item) (item_price item))) \<or>
           (\<exists>k \<le> length items. write_fails S k \<noteq> None) \<or>
           \<not> Order_row_ok d user_id name phone total_amount \<or>
           assigned_pk S \<in> set (map order_pk (Order_objects d))"
    by blast
  then show "\<exists>e. create_order S user_id items name phone address total_amount d = (Inl e, d)"
    by (rule create_order_fails)
next
  assume "(\<exists>item \<in> set items. \<not> OrderItem_row_ok d (item_quantity item) (item_price item)) \<or>
       (\<exists>k \<le> length items. write_fails S k \<noteq> None) \<or>
       \<not> Order_row_ok d user_id name phone total_amount \<or>
       assigned_pk S \<in> set (map order_pk (Order_objects d))"
  then have "(\<exists>item \<in> set items. \<not> (product_exists (item_product_id item) d \<and>
              OrderItem_row_ok d (item_quantity item) (item_price item))) \<or>
           (\<exists>k \<le> length items. write_fails S k \<noteq> None) \<or>
           \<not> Order_row_ok d user_id name phone total_amount \<or>
           assigned_pk S \<in> set (map order_pk (Order_objects d))"
    by blast
  then show "\<exists>e. create_order S user_id items name phone address total_amount d = (Inl e, d)"
    by (rule create_order_fails)
next
  assume a: "(\<forall>item \<in> set items. product_exists (item_product_id item) d \<and>
          OrderItem_row_ok d (item_quantity item) (item_price item)) \<and>
       (\<forall>k \<le> length items. write_fails S k = None) \<and>
       Order_row_ok d user_id name phone total_amount \<and>
       assigned_pk S \<notin> set (map order_pk (Order_objects d))"
  show "create_order S user_id items name phone address total_amount d =
          (Inr (assigned_pk S),
           d\<lparr>Order_objects := Order_objects d @
                [\<lparr>order_pk = assigned_pk S, order_user_id = user_id, order_name = name,
                  order_phone = phone, order_address = address,
                  order_total_amount = quantize_2 total_amount,
                  order_is_completed = False, order_payment_id = None,
                  order_payment_url = None, order_payment_status = ''pending''\<rparr>],
             OrderItem_objects := OrderItem_objects d @
                map (\<lambda>i. \<lparr>order_item_order_id = assigned_pk S,
                           order_item_product_id = item_product_id i,
                           order_item_quantity = item_quantity i,
                           order_item_price = quantize_2 (item_price i)\<rparr>) items\<rparr>)"
    by (rule create_order_ok) (use a in blast)+
next
  assume "two_places total_amount"
  then show "quantize_2 total_amount = total_amount"
    by (rule quantize_2_two_places)
qed

lemma shop_amounts:
  shows "two_places 100" and "two_places 200" and "fits_10_2 100" and "fits_10_2 200"
    and "quantize_2 100 = 100" and "quantize_2 200 = 200"
proof -
  show t1: "two_places 100" and t2: "two_places 200"
    by (simp_all add: two_places_def)
  show "fits_10_2 100" "fits_10_2 200"
    by (simp_all add: fits_10_2_two_places t1 t2)
  show "quantize_2 100 = 100" "quantize_2 200 = 200"
    by (simp_all add: quantize_2_two_places t1 t2)
qed

theorem create_order_atomic_witness:
  "(\<exists>e. create_order (accepting 1) 7
       [\<lparr>item_id = 1, item_product_id = 1, item_name = py ''A'', item_price = 100,
         item_quantity = 2, item_image = None\<rparr>,
        \<lparr>item_id = 2, item_product_id = 99, item_name = py ''B'', item_price = 100,
         item_quantity = 1, item_image = None\<rparr>]
       (py ''Ivan'') (py ''+79991234567'') (py ''Moscow, st. 1'') 200 shop_db = (Inl e, shop_db))
   \<and> (\<exists>e. create_order (accepting 1) 7
       [\<lparr>item_id = 1, item_product_id = 1, item_name = py ''A'', item_price = 100,
         item_quantity = - 1, item_image = None\<rparr>]
       (py ''Ivan'') (py ''+79991234567'') (py ''Moscow, st. 1'') 200 shop_db = (Inl e, shop_db))
   \<and> create_order (accepting 1) 7
       [\<lparr>item_id = 1, item_product_id = 1, item_name = py ''A'', item_price = 100,
         item_quantity = 2, item_image = None\<rparr>]
       (py ''Ivan'') (py ''+79991234567'') (py ''Moscow, st. 1'') 200 shop_db = (Inr 1, placed_db)
   \<and> Order_objects shop_db = [] \<and> OrderItem_objects shop_db = []"
proof -
  let ?a = "\<lparr>item_id = 1, item_product_id = 1, item_name = py ''A'', item_price = 100,
         item_quantity = 2, item_image = None\<rparr>"
  let ?b = "\<lparr>item_id = 2, item_product_id = 99, item_name = py ''B'', item_price = 100,
         item_quantity = 1, item_image = None\<rparr>"
  let ?c = "\<lparr>item_id = 1, item_product_id = 1, item_name = py ''A'', item_price = 100,
         item_quantity = - 1, item_image = None\<rparr>"
  have missing: "\<exists>item \<in> set [?a, ?b]. \<not> product_exists (item_product_id item) shop_db"
    by (simp add: product_exists_def shop_db_def)
  have negative: "\<exists>item \<in> set [?c]. \<not> OrderItem_row_ok shop_db (item_quantity item) (item_price item)"
    by (simp add: OrderItem_row_ok_def)
  have present: "\<forall>item \<in> set [?a]. product_exists (item_product_id item) shop_db \<and>
          OrderItem_row_ok shop_db (item_quantity item) (item_price item)"
    using shop_amounts by (simp add: product_exists_def OrderItem_row_ok_def shop_db_def)
  have writes: "\<forall>k \<le> length [?a]. write_fails (accepting 1) k = None"
    by (simp add: accepting_def)
  have row: "Order_row_ok shop_db 7 (py ''Ivan'') (py ''+79991234567'') 200"
    using shop_amounts
    by (simp add: Order_row_ok_def BigIntegerField_ok_def CharField_ok_def py_def)
  have fresh: "assigned_pk (accepting 1) \<notin> set (map order_pk (Order_objects shop_db))"
    by (simp add: shop_db_def)
  note c = create_order_atomic [of "accepting 1" 7 _ "py ''Ivan''" "py ''+79991234567''"
      "py ''Moscow, st. 1''" 200 shop_db]
  have "\<exists>e. create_order (accepting 1) 7 [?a, ?b]
       (py ''Ivan'') (py ''+79991234567'') (py ''Moscow, st. 1'') 200 shop_db = (Inl e, shop_db)"
    using c [of "[?a, ?b]"] missing by blast
  moreover have "\<exists>e. create_order (accepting 1) 7 [?c]
       (py ''Ivan'') (py ''+79991234567'') (py ''Moscow, st. 1'') 200 shop_db = (Inl e, shop_db)"
    using c [of "[?c]"] negative by blast
  moreover have "create_order (accepting 1) 7 [?a]
       (py ''Ivan'') (py ''+79991234567'') (py ''Moscow, st. 1'') 200 shop_db = (Inr 1, placed_db)"
  proof -
    from c [of "[?a]"] present writes row fresh
    have "create_order (accepting 1) 7 [?a]
       (py ''Ivan'') (py ''+79991234567'') (py ''Moscow, st. 1'') 200 shop_db =
          (Inr (assigned_pk (accepting 1)),
           shop_db\<lparr>Order_objects := Order_objects shop_db @
                [\<lparr>order_pk = assigned_pk (accepting 1), order_user_id = 7, order_name = py ''Ivan'',
                  order_phone = py ''+79991234567'', order_address = py ''Moscow, st. 1'',
                  order_total_amount = quantize_2 200,
                  order_is_completed = False, order_payment_id = None,
                  order_payment_url = None, order_payment_status = ''pending''\<rparr>],
             OrderItem_objects := OrderItem_objects shop_db @
                map (\<lambda>i. \<lparr>order_item_order_id = assigned_pk (accepting 1),
                           order_item_product_id = item_product_id i,
                           order_item_quantity = item_quantity i,
                           order_item_price = quantize_2 (item_price i)\<rparr>) [?a]\<rparr>)"
      by blast
    then show ?thesis
      by (simp add: shop_amounts accepting_def placed_db_def shop_order_def shop_db_def)
  qed
  moreover have "Order_objects shop_db = []" "OrderItem_objects shop_db = []"
    by (simp_all add: shop_db_def)
  ultimately show ?thesis by blast
qed

text \<open>
  The two failures of the example by name: the missing product raises \<^verbatim>\<open>DoesNotExist\<close>,
  the negative quantity an \<^verbatim>\<open>IntegrityError\<close>.
\<close>

lemma create_order_shop_failures:
  "create_order (accepting 1) 7
       [\<lparr>item_id = 1, item_product_id = 1, item_name = py ''A'', item_price = 100,
         item_quantity = 2, item_image = None\<rparr>,
        \<lparr>item_id = 2, item_product_id = 99, item_name = py ''B'', item_price = 100,
         item_quantity = 1, item_image = None\<rparr>]
       (py ''Ivan'') (py ''+79991234567'') (py ''Moscow, st. 1'') 200 shop_db =
     (Inl DoesNotExist, shop_db)"
  "create_order (accepting 1) 7
       [\<lparr>item_id = 1, item_product_id = 1, item_name = py ''A'', item_price = 100,
         item_quantity = - 1, item_image = None\<rparr>]
       (py ''Ivan'') (py ''+79991234567'') (py ''Moscow, st. 1'') 200 shop_db =
     (Inl IntegrityError, shop_db)"
  using shop_amounts
  by (simp_all add: create_order_def atomic_def Order_objects_create_def
      OrderItem_objects_create_def BigIntegerField_ok_def CharField_ok_def py_def
      accepting_def shop_db_def Let_def)

section \<open>Properties of the cart store\<close>

lemma first_by_pk_simps: "first_by_pk [] = None" "first_by_pk [r] = Some r"
  by (simp_all add: first_by_pk_def)

lemma save_cart_item_fresh:
  "cart_item_pk r \<notin> set (map cart_item_pk rows) \<Longrightarrow> save_cart_item r rows = rows"
  by (induction rows) (auto simp: save_cart_item_def)

lemma save_cart_item_append:
  "save_cart_item r (xs @ ys) = save_cart_item r xs @ save_cart_item r ys"
  by (simp add: save_cart_item_def)

lemma save_cart_item_distinct:
  assumes "distinct (map cart_item_pk rows)" and "r \<in> set rows" and "cart_item_pk r' = cart_item_pk r"
  shows "save_cart_item r' rows = map (\<lambda>x. if x = r then r' else x) rows"
proof -
  have "cart_item_pk x = cart_item_pk r \<longleftrightarrow> x = r" if "x \<in> set rows" for x
    using assms(1,2) that by (auto simp: distinct_map inj_on_def)
  then show ?thesis
    unfolding save_cart_item_def assms(3) by (intro map_cong) auto
qed

lemma filter_single_mem:
  assumes "filter P xs = [r]"
  shows "r \<in> set xs" and "P r"
proof -
  have "r \<in> set (filter P xs)" unfolding assms by simp
  then show "r \<in> set xs" and "P r" by simp_all
qed

lemma filter_replace_single:
  assumes "filter P rows = [r]" and "P r'"
  shows "filter P (map (\<lambda>x. if x = r then r' else x) rows) = [r']"
  using assms(1)
proof (induction rows)
  case Nil
  then show ?case by simp
next
  case (Cons x xs)
  have Pr: "P r"
    by (rule filter_single_mem(2) [OF Cons.prems])
  show ?case
  proof (cases "P x")
    case True
    with Cons.prems have x: "x = r" and e: "filter P xs = []" by simp_all
    from e have "\<forall>y \<in> set xs. \<not> P y" by (simp add: filter_empty_conv)
    with Pr have "\<forall>y \<in> set xs. y \<noteq> r" by blast
    then have "map (\<lambda>x. if x = r then r' else x) xs = xs" by (simp add: map_idI)
    with x e assms(2) show ?thesis by simp
  next
    case False
    with Pr have "x \<noteq> r" by blast
    with False Cons show ?thesis by simp
  qed
qed

lemma add_item_absent:
  assumes "product_exists p d" and "cart_lines u p d = []"
    and "write_fails S 0 = None" and "BigIntegerField_ok u" and "IntegerField_ok d q"
    and "assigned_pk S \<notin> set (map cart_item_pk (CartItem_objects d))"
  shows "add_item_to_cart S u p q d =
           (Inr True, d\<lparr>CartItem_objects := CartItem_objects d @
              [\<lparr>cart_item_pk = assigned_pk S, cart_user_id = u, cart_product_id = p,
                cart_quantity = q\<rparr>]\<rparr>)"
  using assms by (simp add: add_item_to_cart_def CartItem_objects_create_def first_by_pk_simps)

lemma add_item_absent_refused:
  assumes "cart_lines u p d = []"
    and "\<not> IntegerField_ok d q \<or> \<not> BigIntegerField_ok u \<or> \<not> product_exists p d \<or>
         write_fails S 0 \<noteq> None \<or> assigned_pk S \<in> set (map cart_item_pk (CartItem_objects d))"
  shows "\<exists>e. add_item_to_cart S u p q d = (Inl e, d)"
  using assms
  by (cases "write_fails S 0")
    (auto simp add: add_item_to_cart_def CartItem_objects_create_def first_by_pk_simps)

lemma add_item_present:
  assumes "distinct (map cart_item_pk (CartItem_objects d))" and "cart_lines u p d = [r]"
    and "write_fails S 0 = None" and "IntegerField_ok d (cart_quantity r + q)"
  shows "add_item_to_cart S u p q d =
           (Inr True, d\<lparr>CartItem_objects :=
              map (\<lambda>x. if x = r then r\<lparr>cart_quantity := cart_quantity r + q\<rparr> else x)
                (CartItem_objects d)\<rparr>) \<and>
         cart_lines u p (snd (add_item_to_cart S u p q d)) =
           [r\<lparr>cart_quantity := cart_quantity r + q\<rparr>]"
proof -
  let ?r' = "r\<lparr>cart_quantity := cart_quantity r + q\<rparr>"
  let ?P = "\<lambda>r. cart_user_id r = u \<and> cart_product_id r = p"
  have f: "filter ?P (CartItem_objects d) = [r]"
    using assms(2) by (simp add: cart_lines_def)
  then have mem: "r \<in> set (CartItem_objects d)" and Pr: "?P r"
    using filter_single_mem [OF f] by simp_all
  have s: "save_cart_item ?r' (CartItem_objects d) =
             map (\<lambda>x. if x = r then ?r' else x) (CartItem_objects d)"
    by (rule save_cart_item_distinct [OF assms(1) mem]) simp
  have l: "filter ?P (map (\<lambda>x. if x = r then ?r' else x) (CartItem_objects d)) = [?r']"
    using Pr by (intro filter_replace_single [OF f]) simp
  have a: "add_item_to_cart S u p q d =
           (Inr True, d\<lparr>CartItem_objects :=
              map (\<lambda>x. if x = r then ?r' else x) (CartItem_objects d)\<rparr>)"
    using assms(2,3,4)
    by (simp add: add_item_to_cart_def cart_item_save_def first_by_pk_simps s)
  show ?thesis
    unfolding a using l by (simp add: cart_lines_def)
qed

lemma add_item_present_refused:
  assumes "cart_lines u p d = [r]"
    and "\<not> IntegerField_ok d (cart_quantity r + q) \<or> write_fails S 0 \<noteq> None"
  shows "\<exists>e. add_item_to_cart S u p q d = (Inl e, d)"
  using assms
  by (cases "write_fails S 0")
    (auto simp add: add_item_to_cart_def cart_item_save_def first_by_pk_simps)

lemma add_item_twice:
  assumes "product_exists p d" and "cart_lines u p d = []"
    and "write_fails S1 0 = None" and "write_fails S2 0 = None" and "BigIntegerField_ok u"
    and "IntegerField_ok d q1" and "IntegerField_ok d (q1 + q2)"
    and "assigned_pk S1 \<notin> set (map cart_item_pk (CartItem_objects d))"
  shows "add_item_to_cart S2 u p q2 (snd (add_item_to_cart S1 u p q1 d)) =
           (Inr True, d\<lparr>CartItem_objects := CartItem_objects d @
              [\<lparr>cart_item_pk = assigned_pk S1, cart_user_id = u, cart_product_id = p,
                cart_quantity = q1 + q2\<rparr>]\<rparr>)"
proof -
  let ?n = "\<lparr>cart_item_pk = assigned_pk S1, cart_user_id = u, cart_product_id = p,
             cart_quantity = q1\<rparr>"
  let ?n' = "\<lparr>cart_item_pk = assigned_pk S1, cart_user_id = u, cart_product_id = p,
             cart_quantity = q1 + q2\<rparr>"
  let ?d1 = "d\<lparr>CartItem_objects := CartItem_objects d @ [?n]\<rparr>"
  have a1: "add_item_to_cart S1 u p q1 d = (Inr True, ?d1)"
    by (rule add_item_absent [OF assms(1,2,3,5,6,8)])
  have f: "filter (\<lambda>r. cart_user_id r = u \<and> cart_product_id r = p) (CartItem_objects d) = []"
    using assms(2) by (simp add: cart_lines_def)
  have l1: "cart_lines u p ?d1 = [?n]"
    using f by (simp add: cart_lines_def)
  have fresh: "cart_item_pk ?n' \<notin> set (map cart_item_pk (CartItem_objects d))"
    using assms(8) by simp
  have s: "save_cart_item ?n' (CartItem_objects d @ [?n]) = CartItem_objects d @ [?n']"
    unfolding save_cart_item_append save_cart_item_fresh [OF fresh]
    by (simp add: save_cart_item_def)
  have r: "IntegerField_ok ?d1 (q1 + q2)"
    using assms(7) by (simp add: IntegerField_ok_def)
  have a2: "add_item_to_cart S2 u p q2 ?d1 =
              (Inr True, d\<lparr>CartItem_objects := CartItem_objects d @ [?n']\<rparr>)"
    unfolding add_item_to_cart_def l1 first_by_pk_simps
    using s r assms(4) by (simp add: cart_item_save_def)
  show ?thesis
    by (simp only: a1 snd_conv a2)
qed

text \<open>
  C5. \<^verbatim>\<open>add_item_to_cart\<close>, for quantities in the range of the quantity column and a
  database that accepts the write. If the product exists and the cart has no line for
  the (user, product) pair, the call appends one line with the given quantity, under
  the key that the database assigns, a key that no cart line has; a second call for
  the pair adds to that line, so that two calls with quantities \<open>q1\<close> and \<open>q2\<close> leave
  exactly one line for the pair, with quantity \<open>q1 + q2\<close>. If the cart has one line for
  the pair (primary keys being distinct), the call adds the quantity to that line and
  changes no other line. A quantity that leaves the range of the column makes the
  call raise, and the cart stays as it was.
\<close>

theorem add_item_to_cart_upsert:
  "(product_exists p d \<and> cart_lines u p d = [] \<and> BigIntegerField_ok u \<and>
    IntegerField_ok d q1 \<and> IntegerField_ok d (q1 + q2) \<and>
    write_fails S1 0 = None \<and> write_fails S2 0 = None \<and>
    assigned_pk S1 \<notin> set (map cart_item_pk (CartItem_objects d)) \<longrightarrow>
      add_item_to_cart S1 u p q1 d =
        (Inr True, d\<lparr>CartItem_objects := CartItem_objects d @
           [\<lparr>cart_item_pk = assigned_pk S1, cart_user_id = u, cart_product_id = p,
             cart_quantity = q1\<rparr>]\<rparr>) \<and>
      add_item_to_cart S2 u p q2 (snd (add_item_to_cart S1 u p q1 d)) =
        (Inr True, d\<lparr>CartItem_objects := CartItem_objects d @
           [\<lparr>cart_item_pk = assigned_pk S1, cart_user_id = u, cart_product_id = p,
             cart_quantity = q1 + q2\<rparr>]\<rparr>) \<and>
      cart_lines u p (snd (add_item_to_cart S2 u p q2 (snd (add_item_to_cart S1 u p q1 d)))) =
        [\<lparr>cart_item_pk = assigned_pk S1, cart_user_id = u, cart_product_id = p,
          cart_quantity = q1 + q2\<rparr>])
   \<and> (distinct (map cart_item_pk (CartItem_objects d)) \<and> cart_lines u p d = [r] \<and>
      IntegerField_ok d (cart_quantity r + q) \<and> write_fails S 0 = None \<longrightarrow>
        add_item_to_cart S u p q d =
          (Inr True, d\<lparr>CartItem_objects :=
             map (\<lambda>x. if x = r then r\<lparr>cart_quantity := cart_quantity r + q\<rparr> else x)
               (CartItem_objects d)\<rparr>) \<and>
        cart_lines u p (snd (add_item_to_cart S u p q d)) =
          [r\<lparr>cart_quantity := cart_quantity r + q\<rparr>])
   \<and> (cart_lines u p d = [r] \<and> \<not> IntegerField_ok d (cart_quantity r + q) \<longrightarrow>
        (\<exists>e. add_item_to_cart S u p q d = (Inl e, d)))
   \<and> (cart_lines u p d = [] \<and> \<not> IntegerField_ok d q \<longrightarrow>
        (\<exists>e. add_item_to_cart S u p q d = (Inl e, d)))"
proof (intro conjI impI)
  assume a: "product_exists p d \<and> cart_lines u p d = [] \<and> BigIntegerField_ok u \<and>
    IntegerField_ok d q1 \<and> IntegerField_ok d (q1 + q2) \<and>
    write_fails S1 0 = None \<and> write_fails S2 0 = None \<and>
    assigned_pk S1 \<notin> set (map cart_item_pk (CartItem_objects d))"
  show "add_item_to_cart S1 u p q1 d =
        (Inr True, d\<lparr>CartItem_objects := CartItem_objects d @
           [\<lparr>cart_item_pk = assigned_pk S1, cart_user_id = u, cart_product_id = p,
             cart_quantity = q1\<rparr>]\<rparr>)"
    by (rule add_item_absent) (use a in blast)+
  show t: "add_item_to_cart S2 u p q2 (snd (add_item_to_cart S1 u p q1 d)) =
        (Inr True, d\<lparr>CartItem_objects := CartItem_objects d @
           [\<lparr>cart_item_pk = assigned_pk S1, cart_user_id = u, cart_product_id = p,
             cart_quantity = q1 + q2\<rparr>]\<rparr>)"
    by (rule add_item_twice) (use a in blast)+
  have "filter (\<lambda>r. cart_user_id r = u \<and> cart_product_id r = p) (CartItem_objects d) = []"
    using a by (simp add: cart_lines_def)
  then show "cart_lines u p (snd (add_item_to_cart S2 u p q2 (snd (add_item_to_cart S1 u p q1 d)))) =
        [\<lparr>cart_item_pk = assigned_pk S1, cart_user_id = u, cart_product_id = p,
          cart_quantity = q1 + q2\<rparr>]"
    unfolding t by (simp add: cart_lines_def)
next
  assume a: "distinct (map cart_item_pk (CartItem_objects d)) \<and> cart_lines u p d = [r] \<and>
      IntegerField_ok d (cart_quantity r + q) \<and> write_fails S 0 = None"
  have b: "add_item_to_cart S u p q d =
          (Inr True, d\<lparr>CartItem_objects :=
             map (\<lambda>x. if x = r then r\<lparr>cart_quantity := cart_quantity r + q\<rparr> else x)
               (CartItem_objects d)\<rparr>) \<and>
        cart_lines u p (snd (add_item_to_cart S u p q d)) =
          [r\<lparr>cart_quantity := cart_quantity r + q\<rparr>]"
    by (rule add_item_present) (use a in blast)+
  from b show "add_item_to_cart S u p q d =
          (Inr True, d\<lparr>CartItem_objects :=
             map (\<lambda>x. if x = r then r\<lparr>cart_quantity := cart_quantity r + q\<rparr> else x)
               (CartItem_objects d)\<rparr>)" ..
  from b show "cart_lines u p (snd (add_item_to_cart S u p q d)) =
          [r\<lparr>cart_quantity := cart_quantity r + q\<rparr>]" ..
next
  assume "cart_lines u p d = [r] \<and> \<not> IntegerField_ok d (cart_quantity r + q)"
  then show "\<exists>e. add_item_to_cart S u p q d = (Inl e, d)"
    using add_item_present_refused [of u p d r q S] by blast
next
  assume "cart_lines u p d = [] \<and> \<not> IntegerField_ok d q"
  then show "\<exists>e. add_item_to_cart S u p q d = (Inl e, d)"
    using add_item_absent_refused [of u p d q S] by blast
qed

theorem add_item_to_cart_upsert_witness:
  "add_item_to_cart (accepting 2) 9 1 3 shop_db =
     (Inr True, shop_db\<lparr>CartItem_objects := CartItem_objects shop_db @
        [\<lparr>cart_item_pk = 2, cart_user_id = 9, cart_product_id = 1, cart_quantity = 3\<rparr>]\<rparr>)
   \<and> cart_lines 9 1 (snd (add_item_to_cart (accepting 5) 9 1 4
                           (snd (add_item_to_cart (accepting 2) 9 1 3 shop_db)))) =
       [\<lparr>cart_item_pk = 2, cart_user_id = 9, cart_product_id = 1, cart_quantity = 7\<rparr>]
   \<and> cart_lines 7 1 (snd (add_item_to_cart (accepting 2) 7 1 5 shop_db)) =
       [\<lparr>cart_item_pk = 1, cart_user_id = 7, cart_product_id = 1, cart_quantity = 7\<rparr>]
   \<and> (\<exists>e. add_item_to_cart (accepting 2) 7 1 (2 ^ 63) shop_db = (Inl e, shop_db))
   \<and> (\<exists>e. add_item_to_cart (accepting 2) 9 1 (2 ^ 63) shop_db = (Inl e, shop_db))"
proof -
  let ?r = "\<lparr>cart_item_pk = 1, cart_user_id = 7, cart_product_id = 1, cart_quantity = 2\<rparr>"
  have e: "product_exists 1 shop_db"
    by (simp add: product_exists_def shop_db_def)
  have a: "cart_lines 9 1 shop_db = []"
    by (simp add: cart_lines_def shop_db_def)
  have p: "cart_lines 7 1 shop_db = [?r]"
    by (simp add: cart_lines_def shop_db_def)
  have dst: "distinct (map cart_item_pk (CartItem_objects shop_db))"
    by (simp add: shop_db_def)
  have rng: "BigIntegerField_ok 9" "IntegerField_ok shop_db 3" "IntegerField_ok shop_db (3 + 4)"
    "IntegerField_ok shop_db (cart_quantity ?r + 5)"
    "\<not> IntegerField_ok shop_db (cart_quantity ?r + 2 ^ 63)" "\<not> IntegerField_ok shop_db (2 ^ 63)"
    by (simp_all add: BigIntegerField_ok_def IntegerField_ok_def shop_db_def)
  have w: "write_fails (accepting 2) 0 = None" "write_fails (accepting 5) 0 = None"
    "assigned_pk (accepting 2) \<notin> set (map cart_item_pk (CartItem_objects shop_db))"
    by (simp_all add: accepting_def shop_db_def)
  note t1 = add_item_to_cart_upsert [of 1 shop_db 9 3 4 "accepting 2" "accepting 5", THEN conjunct1]
  from t1 e a rng w
  have f1: "add_item_to_cart (accepting 2) 9 1 3 shop_db =
     (Inr True, shop_db\<lparr>CartItem_objects := CartItem_objects shop_db @
        [\<lparr>cart_item_pk = assigned_pk (accepting 2), cart_user_id = 9, cart_product_id = 1,
          cart_quantity = 3\<rparr>]\<rparr>)"
    and f2: "cart_lines 9 1 (snd (add_item_to_cart (accepting 5) 9 1 4
                           (snd (add_item_to_cart (accepting 2) 9 1 3 shop_db)))) =
       [\<lparr>cart_item_pk = assigned_pk (accepting 2), cart_user_id = 9, cart_product_id = 1,
         cart_quantity = 3 + 4\<rparr>]"
    by blast+
  have k: "assigned_pk (accepting 2) = 2"
    by (simp add: accepting_def)
  have "add_item_to_cart (accepting 2) 9 1 3 shop_db =
     (Inr True, shop_db\<lparr>CartItem_objects := CartItem_objects shop_db @
        [\<lparr>cart_item_pk = 2, cart_user_id = 9, cart_product_id = 1, cart_quantity = 3\<rparr>]\<rparr>)"
    using f1 unfolding k .
  moreover have "cart_lines 9 1 (snd (add_item_to_cart (accepting 5) 9 1 4
                           (snd (add_item_to_cart (accepting 2) 9 1 3 shop_db)))) =
       [\<lparr>cart_item_pk = 2, cart_user_id = 9, cart_product_id = 1, cart_quantity = 7\<rparr>]"
    using f2 unfolding k by simp
  moreover have "cart_lines 7 1 (snd (add_item_to_cart (accepting 2) 7 1 5 shop_db)) =
       [\<lparr>cart_item_pk = 1, cart_user_id = 7, cart_product_id = 1, cart_quantity = 7\<rparr>]"
  proof -
    from add_item_to_cart_upsert [of 1 shop_db 7 0 0 "accepting 2" "accepting 2" ?r 5 "accepting 2",
        THEN conjunct2, THEN conjunct1] dst p rng w
    have "cart_lines 7 1 (snd (add_item_to_cart (accepting 2) 7 1 5 shop_db)) =
       [?r\<lparr>cart_quantity := cart_quantity ?r + 5\<rparr>]"
      by blast
    then show ?thesis by simp
  qed
  moreover have "\<exists>e. add_item_to_cart (accepting 2) 7 1 (2 ^ 63) shop_db = (Inl e, shop_db)"
    using add_item_to_cart_upsert [of 1 shop_db 7 0 0 "accepting 2" "accepting 2" ?r "2 ^ 63" "accepting 2",
        THEN conjunct2, THEN conjunct2, THEN conjunct1] p rng
    by blast
  moreover have "\<exists>e. add_item_to_cart (accepting 2) 9 1 (2 ^ 63) shop_db = (Inl e, shop_db)"
    using add_item_to_cart_upsert [of 1 shop_db 9 0 0 "accepting 2" "accepting 2" ?r "2 ^ 63" "accepting 2",
        THEN conjunct2, THEN conjunct2, THEN conjunct2] a rng
    by blast
  ultimately show ?thesis by blast
qed

section \<open>Properties of the subscription gate\<close>

text \<open>
  What the function does in general. A member query that succeeds gives \<open>True\<close> exactly
  for the statuses creator, administrator and member, and a member query that raises
  with a message containing \<open>member list is inaccessible\<close> gives \<open>True\<close>. Every other
  failure, of the member query or of the look-up of the chat, reaches
  \<^verbatim>\<open>logger.error\<close>, and the \<^verbatim>\<open>AttributeError\<close> of that leaves the function: it does not
  return \<open>False\<close>.
\<close>

lemma check_user_subscribed_cases:
  "check_user_subscribed b user_id (ChatInt i) =
     (case get_chat_member b (ChatInt i) user_id of
        Inr status \<Rightarrow> Inr (status = py ''creator'' \<or> status = py ''administrator'' \<or> status = py ''member'')
      | Inl message \<Rightarrow>
          if contains (py ''member list is inaccessible'') message then Inr True
          else Inl AttributeError)"
  "startswith s (py ''@'') \<Longrightarrow>
   check_user_subscribed b user_id (ChatStr s) =
     (case get_chat b (ChatStr s) of
        Inl message \<Rightarrow> Inl AttributeError
      | Inr n \<Rightarrow>
          (case get_chat_member b (ChatInt n) user_id of
             Inr status \<Rightarrow> Inr (status = py ''creator'' \<or> status = py ''administrator'' \<or> status = py ''member'')
           | Inl message \<Rightarrow>
               if contains (py ''member list is inaccessible'') message then Inr True
               else Inl AttributeError))"
  by (auto simp add: check_user_subscribed_def check_user_subscribed_try_def logger_error_def
      split: sum.splits)

lemma inaccessible_message:
  "contains (py ''member list is inaccessible'') (py ''Bad Request: member list is inaccessible'')"
  "\<not> contains (py ''member list is inaccessible'') (py ''Bad Request: user not found'')"
  by (simp_all add: startswith_def py_def)

text \<open>
  C10. \<^verbatim>\<open>check_user_subscribed\<close> does not fail closed. For user 10, about whom Telegram
  answers \<open>user not found\<close>, and for the channel \<open>@nowhere\<close>, which Telegram does not
  know, the function does not return \<open>False\<close>: the \<^verbatim>\<open>AttributeError\<close> of \<^verbatim>\<open>logger.error\<close>
  leaves it. The inaccessible member list gives \<open>True\<close>, a member gives \<open>True\<close>, a user
  who has left gives \<open>False\<close>.
\<close>

theorem check_user_subscribed_failure_raises:
  "check_user_subscribed channel_bot 10 (ChatInt (-100)) = Inl AttributeError
   \<and> check_user_subscribed channel_bot 7 (ChatStr (py ''@nowhere'')) = Inl AttributeError
   \<and> check_user_subscribed channel_bot 9 (ChatInt (-100)) = Inr True
   \<and> check_user_subscribed channel_bot 7 (ChatStr (py ''@shop'')) = Inr True
   \<and> check_user_subscribed channel_bot 8 (ChatStr (py ''@shop'')) = Inr False"
proof -
  have at: "startswith (py ''@shop'') (py ''@'')" "startswith (py ''@nowhere'') (py ''@'')"
    by (simp_all add: startswith_def py_def)
  have ne: "py ''@nowhere'' \<noteq> py ''@shop''" "py ''left'' \<noteq> py ''creator''"
    "py ''left'' \<noteq> py ''administrator''" "py ''left'' \<noteq> py ''member''"
    by (simp_all add: py_def)
  have "check_user_subscribed channel_bot 10 (ChatInt (-100)) = Inl AttributeError"
    unfolding check_user_subscribed_cases
    using inaccessible_message by (simp add: channel_bot_def)
  moreover have "check_user_subscribed channel_bot 7 (ChatStr (py ''@nowhere'')) = Inl AttributeError"
    unfolding check_user_subscribed_cases(2) [OF at(2)]
    using ne by (simp add: channel_bot_def)
  moreover have "check_user_subscribed channel_bot 9 (ChatInt (-100)) = Inr True"
    unfolding check_user_subscribed_cases
    using inaccessible_message by (simp add: channel_bot_def)
  moreover have "check_user_subscribed channel_bot 7 (ChatStr (py ''@shop'')) = Inr True"
    unfolding check_user_subscribed_cases(2) [OF at(1)]
    by (simp add: channel_bot_def)
  moreover have "check_user_subscribed channel_bot 8 (ChatStr (py ''@shop'')) = Inr False"
    unfolding check_user_subscribed_cases(2) [OF at(1)]
    using ne by (simp add: channel_bot_def)
  ultimately show ?thesis by blast
qed

end
